theory Spec2Isabelle
  imports Complex_Main
begin

section \<open>Python values and library behaviour\<close>

text \<open>
  The agent of \<^verbatim>\<open>src/agents/claude_code_agent.py\<close> reads the standard output of a
  subprocess line by line, decodes each line with \<^verbatim>\<open>json.loads\<close> and prints a progress
  report. A decoded line is one of Python's JSON values. A dictionary is kept as the list
  of its items (the keys of a Python dictionary are distinct). A character of a
  \<^typ>\<open>string\<close> stands for one character of the Python string, a code point below U+0100.
\<close>

datatype json =
    JNull
  | JBool bool
  | JInt int
  | JFloat rat
  | JStr string
  | JList "json list"
  | JDict "(string \<times> json) list"

text \<open>
  The exceptions the code can meet. \<open>AttributeError v a\<close> is raised by \<^verbatim>\<open>v.a\<close> on a
  value without that attribute, \<open>TypeError v\<close> and \<open>ValueError v\<close> by an operation that
  the value \<open>v\<close> does not support, \<open>OSError\<close> by the operating system (a program or a
  file that is not there). \<open>AgentTimeoutException\<close> carries the agent's name, the
  timeout in seconds and a message, as the source constructs it.
\<close>

datatype exn =
    TimeoutExpired
  | AgentTimeoutException string int string
  | AttributeError json string
  | TypeError json
  | ValueError json
  | OSError string

text \<open>
  Library behaviour that is taken as a parameter: the JSON decoder (\<open>None\<close> stands for
  \<^verbatim>\<open>json.JSONDecodeError\<close>), the text Python prints for a value that is not a string, the
  two floating-point formats of the result line (\<^verbatim>\<open>{duration/1000:.1f}\<close> and
  \<^verbatim>\<open>{cost:.4f}\<close>; \<open>None\<close> when the value cannot be formatted, which raises) and the text of an
  exception (\<^verbatim>\<open>str(e)\<close>).
\<close>

record pylib =
  json_loads :: "string \<Rightarrow> json option"
  py_repr :: "json \<Rightarrow> string"
  fmt_duration :: "json \<Rightarrow> string option"
  fmt_cost :: "json \<Rightarrow> string option"
  str_exn :: "exn \<Rightarrow> string"

text \<open>A value inside an f-string: a string is printed as it is.\<close>

fun fmt :: "pylib \<Rightarrow> json \<Rightarrow> string" where
  "fmt lib (JStr s) = s"
| "fmt lib v = py_repr lib v"

text \<open>Truth value of a JSON value in a condition (\<^verbatim>\<open>if tools:\<close>).\<close>

fun truthy :: "json \<Rightarrow> bool" where
  "truthy JNull = False"
| "truthy (JBool b) = b"
| "truthy (JInt n) = (n \<noteq> 0)"
| "truthy (JFloat r) = (r \<noteq> 0)"
| "truthy (JStr s) = (s \<noteq> [])"
| "truthy (JList xs) = (xs \<noteq> [])"
| "truthy (JDict kvs) = (kvs \<noteq> [])"

text \<open>\<^verbatim>\<open>d.get(k, default)\<close> on a dictionary, and on any value.\<close>

definition lookup :: "(string \<times> json) list \<Rightarrow> string \<Rightarrow> json \<Rightarrow> json" where
  "lookup kvs k d = (case map_of kvs k of Some v \<Rightarrow> v | None \<Rightarrow> d)"

fun dict_get :: "json \<Rightarrow> string \<Rightarrow> json \<Rightarrow> exn + json" where
  "dict_get (JDict kvs) k d = Inr (lookup kvs k d)"
| "dict_get v k d = Inl (AttributeError v ''get'')"

text \<open>\<^verbatim>\<open>for item in content\<close>: the items a value yields, or the error of iterating it.\<close>

fun py_iter :: "json \<Rightarrow> exn + json list" where
  "py_iter (JList xs) = Inr xs"
| "py_iter (JStr s) = Inr (map (\<lambda>c. JStr [c]) s)"
| "py_iter (JDict kvs) = Inr (map (\<lambda>kv. JStr (fst kv)) kvs)"
| "py_iter v = Inl (TypeError v)"

subsection \<open>Strings\<close>

text \<open>
  \<^verbatim>\<open>str.lower\<close>: the letters A to Z and the capital letters of Latin-1 (U+00C0 to U+00DE
  without the multiplication sign U+00D7) are mapped to their small letters, 32 code
  points further; every other character below U+0100 is kept, as Python keeps it.
\<close>

definition upper_letters :: string where
  "upper_letters =
     ''ABCDEFGHIJKLMNOPQRSTUVWXYZ''
     @ [CHR 0xC0, CHR 0xC1, CHR 0xC2, CHR 0xC3, CHR 0xC4, CHR 0xC5, CHR 0xC6, CHR 0xC7,
         CHR 0xC8, CHR 0xC9, CHR 0xCA, CHR 0xCB, CHR 0xCC, CHR 0xCD, CHR 0xCE, CHR 0xCF,
         CHR 0xD0, CHR 0xD1, CHR 0xD2, CHR 0xD3, CHR 0xD4, CHR 0xD5, CHR 0xD6, CHR 0xD8,
         CHR 0xD9, CHR 0xDA, CHR 0xDB, CHR 0xDC, CHR 0xDD, CHR 0xDE]"

definition lower_letters :: string where
  "lower_letters =
     ''abcdefghijklmnopqrstuvwxyz''
     @ [CHR 0xE0, CHR 0xE1, CHR 0xE2, CHR 0xE3, CHR 0xE4, CHR 0xE5, CHR 0xE6, CHR 0xE7,
         CHR 0xE8, CHR 0xE9, CHR 0xEA, CHR 0xEB, CHR 0xEC, CHR 0xED, CHR 0xEE, CHR 0xEF,
         CHR 0xF0, CHR 0xF1, CHR 0xF2, CHR 0xF3, CHR 0xF4, CHR 0xF5, CHR 0xF6, CHR 0xF8,
         CHR 0xF9, CHR 0xFA, CHR 0xFB, CHR 0xFC, CHR 0xFD, CHR 0xFE]"

definition lower_char :: "char \<Rightarrow> char" where
  "lower_char c =
     (case map_of (zip upper_letters lower_letters) c of
        Some d \<Rightarrow> d
      | None \<Rightarrow> c)"

definition lower :: "string \<Rightarrow> string" where
  "lower s = map lower_char s"

text \<open>
  \<^verbatim>\<open>str.strip\<close>: white space is removed at both ends. The white space below U+0100 is
  the tab, the line feed, the vertical tab, the form feed, the carriage return, the four
  separators U+001C to U+001F, the space, the next line U+0085 and the no-break space
  U+00A0.
\<close>

definition is_space :: "char \<Rightarrow> bool" where
  "is_space c = (c \<in> set [CHR 0x09, CHR 0x0A, CHR 0x0B, CHR 0x0C, CHR 0x0D,
                           CHR 0x1C, CHR 0x1D, CHR 0x1E, CHR 0x1F, CHR '' '',
                           CHR 0x85, CHR 0xA0])"

definition strip :: "string \<Rightarrow> string" where
  "strip s = rev (dropWhile is_space (rev (dropWhile is_space s)))"

text \<open>\<^verbatim>\<open>needle in s\<close> on strings.\<close>

fun starts_with :: "string \<Rightarrow> string \<Rightarrow> bool" where
  "starts_with s [] = True"
| "starts_with [] (c # cs) = False"
| "starts_with (d # ds) (c # cs) = (d = c \<and> starts_with ds cs)"

fun py_in :: "string \<Rightarrow> string \<Rightarrow> bool" where
  "py_in needle [] = (needle = [])"
| "py_in needle (c # cs) = (starts_with (c # cs) needle \<or> py_in needle cs)"

text \<open>\<^verbatim>\<open>sep.join(parts)\<close>.\<close>

fun join :: "string \<Rightarrow> string list \<Rightarrow> string" where
  "join sep [] = []"
| "join sep [x] = x"
| "join sep (x # y # ys) = x @ sep @ join sep (y # ys)"

text \<open>\<^verbatim>\<open>os.path.basename\<close> (POSIX): what follows the last slash.\<close>

definition basename :: "string \<Rightarrow> string" where
  "basename p = rev (takeWhile (\<lambda>c. c \<noteq> CHR ''/'') (rev p))"

text \<open>\<^verbatim>\<open>str(n)\<close> for an integer.\<close>

function str_nat :: "nat \<Rightarrow> string" where
  "str_nat n =
     (if n < 10 then [''0123456789'' ! n]
      else str_nat (n div 10) @ [''0123456789'' ! (n mod 10)])"
  by pat_completeness auto
termination
  by (relation "measure id") auto

declare str_nat.simps [simp del]

definition str_int :: "int \<Rightarrow> string" where
  "str_int i = (if i < 0 then ''-'' @ str_nat (nat (- i)) else str_nat (nat i))"

section \<open>Progress display\<close>

text \<open>
  A statement prints lines and may raise: its meaning is the list of the lines printed
  (the arguments of \<^verbatim>\<open>print\<close>, in order) and the exception that ended it, if any.
\<close>

type_synonym stmt = "string list \<times> exn option"

definition seq :: "stmt \<Rightarrow> stmt \<Rightarrow> stmt" where
  "seq a b = (case a of (ps, Some e) \<Rightarrow> (ps, Some e)
                      | (ps, None) \<Rightarrow> (case b of (qs, r) \<Rightarrow> (ps @ qs, r)))"

fun for_each :: "(json \<Rightarrow> stmt) \<Rightarrow> json list \<Rightarrow> stmt" where
  "for_each body [] = ([], None)"
| "for_each body (x # xs) =
     (case body x of
        (ps, Some e) \<Rightarrow> (ps, Some e)
      | (ps, None) \<Rightarrow> (case for_each body xs of (qs, r) \<Rightarrow> (ps @ qs, r)))"

text \<open>
  Lines 50 to 52: the first five tool names joined by a comma, and three dots when
  there are more. A string is sliced and joined character by character, as Python does;
  a value that cannot be sliced or an item that is not a string raises.
\<close>

fun is_str :: "json \<Rightarrow> bool" where
  "is_str (JStr s) = True"
| "is_str v = False"

fun str_of :: "json \<Rightarrow> string" where
  "str_of (JStr s) = s"
| "str_of v = []"

fun tools_line :: "json \<Rightarrow> exn + string" where
  "tools_line (JList xs) =
     (case filter (\<lambda>v. \<not> is_str v) (take 5 xs) of
        v # _ \<Rightarrow> Inl (TypeError v)
      | [] \<Rightarrow> Inr (join '', '' (map str_of (take 5 xs))
                   @ (if length xs > 5 then ''...'' else [])))"
| "tools_line (JStr s) =
     Inr (join '', '' (map (\<lambda>c. [c]) (take 5 s)) @ (if length s > 5 then ''...'' else []))"
| "tools_line v = Inl (TypeError v)"

definition display_system :: "pylib \<Rightarrow> (string \<times> json) list \<Rightarrow> stmt" where
  "display_system lib obj =
     (if lookup obj ''subtype'' JNull = JStr ''init'' then
        seq ([''Initializing Claude session...'',
              ''   Model: '' @ fmt lib (lookup obj ''model'' (JStr ''unknown''))], None)
            (let tools = lookup obj ''tools'' (JList []) in
             if truthy tools then
               (case tools_line tools of
                  Inl e \<Rightarrow> ([], Some e)
                | Inr l \<Rightarrow> ([''   Available tools: '' @ l], None))
             else ([], None))
      else ([], None))"

text \<open>
  Lines 69 to 83: the tools Write, Edit and Read print the base name of the file path
  of their input, when there is one.
\<close>

definition show_file_tool :: "string \<Rightarrow> (string \<times> json) list \<Rightarrow> stmt" where
  "show_file_tool label item =
     (case dict_get (lookup item ''input'' (JDict [])) ''file_path'' (JStr []) of
        Inl e \<Rightarrow> ([], Some e)
      | Inr file_path \<Rightarrow>
          if truthy file_path then
            (case file_path of
               JStr p \<Rightarrow> ([label @ basename p], None)
             | v \<Rightarrow> ([], Some (TypeError v)))
          else ([], None))"

text \<open>
  Line 88: \<^verbatim>\<open>{command[:50]}{'...' if len(command) > 50 else ''}\<close>. A list is sliced and
  printed as Python prints a list; a dictionary or a number cannot be sliced (the
  exception of a dictionary is a \<^verbatim>\<open>KeyError\<close> from Python 3.12 on; it is caught in the same
  way).
\<close>

fun command_summary :: "pylib \<Rightarrow> json \<Rightarrow> exn + string" where
  "command_summary lib (JStr c) = Inr (take 50 c @ (if length c > 50 then ''...'' else []))"
| "command_summary lib (JList xs) =
     Inr (py_repr lib (JList (take 50 xs)) @ (if length xs > 50 then ''...'' else []))"
| "command_summary lib v = Inl (TypeError v)"

definition show_bash :: "pylib \<Rightarrow> (string \<times> json) list \<Rightarrow> stmt" where
  "show_bash lib item =
     (case dict_get (lookup item ''input'' (JDict [])) ''command'' (JStr []) of
        Inl e \<Rightarrow> ([], Some e)
      | Inr command \<Rightarrow>
          if truthy command then
            (case command_summary lib command of
               Inl e \<Rightarrow> ([], Some e)
             | Inr s \<Rightarrow> ([''   Running: '' @ s], None))
          else ([], None))"

text \<open>Lines 58 to 88: the body of the loop over the content of an assistant message.\<close>

fun display_assistant_item :: "pylib \<Rightarrow> json \<Rightarrow> stmt" where
  "display_assistant_item lib (JDict item) =
     (if lookup item ''type'' JNull = JStr ''text'' then
        (case lookup item ''text'' (JStr []) of
           JStr text \<Rightarrow> if strip text \<noteq> [] then ([''\<newline>'' @ text], None) else ([], None)
         | v \<Rightarrow> ([], Some (AttributeError v ''strip'')))
      else if lookup item ''type'' JNull = JStr ''tool_use'' then
        (let tool_name = lookup item ''name'' (JStr ''unknown'') in
         seq ([''\<newline>Using tool: '' @ fmt lib tool_name], None)
           (if tool_name = JStr ''Write'' then show_file_tool ''   Creating file: '' item
            else if tool_name = JStr ''Edit'' then show_file_tool ''   Editing file: '' item
            else if tool_name = JStr ''Read'' then show_file_tool ''   Reading file: '' item
            else if tool_name = JStr ''Bash'' then show_bash lib item
            else ([], None)))
      else ([], None))"
| "display_assistant_item lib v = ([], Some (AttributeError v ''get''))"

text \<open>Lines 96 to 102: what is printed for the text of a tool result.\<close>

definition tool_result_line :: "string \<Rightarrow> string" where
  "tool_result_line result_content =
     (if py_in ''successfully'' (lower result_content) then ''   Success''
      else if py_in ''error'' (lower result_content) \<or> py_in ''failed'' (lower result_content)
      then ''   Error: '' @ take 100 result_content @ ''...''
      else ''   '' @ take 100 result_content
           @ (if length result_content > 100 then ''...'' else []))"

text \<open>Lines 94 to 102: the body of the loop over the content of a user message.\<close>

fun display_user_item :: "json \<Rightarrow> stmt" where
  "display_user_item (JDict item) =
     (if lookup item ''type'' JNull = JStr ''tool_result'' then
        (case lookup item ''content'' (JStr []) of
           JStr result_content \<Rightarrow> ([tool_result_line result_content], None)
         | v \<Rightarrow> ([], Some (AttributeError v ''lower'')))
      else ([], None))"
| "display_user_item v = ([], Some (AttributeError v ''get''))"

text \<open>
  Lines 55, 56 and 91, 92: the content of the message of an event, as the list the loop
  runs over.
\<close>

definition message_content :: "(string \<times> json) list \<Rightarrow> exn + json list" where
  "message_content obj =
     (case dict_get (lookup obj ''message'' (JDict [])) ''content'' (JList []) of
        Inl e \<Rightarrow> Inl e
      | Inr content \<Rightarrow> py_iter content)"

definition display_result :: "pylib \<Rightarrow> (string \<times> json) list \<Rightarrow> stmt" where
  "display_result lib obj =
     (if lookup obj ''subtype'' JNull = JStr ''success'' then
        (let result = lookup obj ''result'' (JStr []);
             cost = lookup obj ''cost_usd'' (JInt 0);
             duration = lookup obj ''duration_ms'' (JInt 0)
         in seq ([''\<newline>Task completed successfully!'']
                 @ (if truthy result then [''   Result: '' @ fmt lib result] else []), None)
              (case fmt_duration lib duration of
                 None \<Rightarrow> ([], Some (TypeError duration))
               | Some d \<Rightarrow>
                   (case fmt_cost lib cost of
                      None \<Rightarrow> ([], Some (if is_str cost then ValueError cost else TypeError cost))
                    | Some c \<Rightarrow> ([''   Duration: '' @ d @ ''s, Cost: $'' @ c], None))))
      else ([''\<newline>Task failed: '' @ fmt lib (lookup obj ''error'' (JStr ''Unknown error''))],
            None))"

text \<open>
  \<^verbatim>\<open>_display_claude_progress\<close>, lines 44 to 114. The argument is whatever
  \<^verbatim>\<open>json.loads\<close> returned: a value that is not a dictionary has no \<^verbatim>\<open>get\<close>.
\<close>

fun display_claude_progress :: "pylib \<Rightarrow> json \<Rightarrow> stmt" where
  "display_claude_progress lib (JDict obj) =
     (if lookup obj ''type'' JNull = JStr ''system'' then display_system lib obj
      else if lookup obj ''type'' JNull = JStr ''assistant'' then
        (case message_content obj of
           Inl e \<Rightarrow> ([], Some e)
         | Inr content \<Rightarrow> for_each (display_assistant_item lib) content)
      else if lookup obj ''type'' JNull = JStr ''user'' then
        (case message_content obj of
           Inl e \<Rightarrow> ([], Some e)
         | Inr content \<Rightarrow> for_each display_user_item content)
      else if lookup obj ''type'' JNull = JStr ''result'' then display_result lib obj
      else ([], None))"
| "display_claude_progress lib v = ([], Some (AttributeError v ''get''))"

section \<open>Executing a prompt\<close>

text \<open>
  Modelled from the spec: \<^verbatim>\<open>AgentResponse\<close> is declared in \<^verbatim>\<open>agents/base.py\<close>, which is
  not part of the sources. The spec gives the outcome a flag, a content string and an
  optional error message; a response constructed without a message has none.
\<close>

record AgentResponse =
  content :: string
  success :: bool
  error_message :: "string option"

text \<open>
  What the code reads from the agent object and from the configuration: the agent's
  name, the path of the output file, the repository directory, the current project name
  and \<^verbatim>\<open>config.agent_timeout_seconds\<close>. \<^verbatim>\<open>AgentTimeoutException\<close> is declared in
  \<^verbatim>\<open>common/exceptions.py\<close>, which is not part of the sources: whether it is a subclass of
  \<^verbatim>\<open>Exception\<close> is the parameter \<open>timeout_is_Exception\<close>.
\<close>

record agent =
  agent_name :: string
  output_file :: string
  repo_dir :: string
  current_project_name :: "string option"
  agent_timeout_seconds :: int
  timeout_is_Exception :: bool

text \<open>
  The subprocess, as the supervising code observes it. \<open>reads\<close> is what the successive
  calls of \<^verbatim>\<open>readline\<close> return while the process is alive: a raw line, or the empty string
  when the output has ended but \<^verbatim>\<open>poll()\<close> still finds the process running. After them
  \<^verbatim>\<open>readline\<close> has nothing more to return, and \<^verbatim>\<open>poll()\<close> yields \<open>exit_status\<close>: the return
  code, or \<open>None\<close> for a process that never exits. \<open>stderr_text\<close> is what
  \<^verbatim>\<open>process.stderr.read()\<close> returns.
\<close>

record subprocess =
  reads :: "string list"
  exit_status :: "int option"
  stderr_text :: string

text \<open>
  The world around one call: the operator's answer to \<^verbatim>\<open>input\<close>, what \<^verbatim>\<open>subprocess.Popen\<close>
  does (it raises when the program cannot be started), what \<^verbatim>\<open>_read_output_file\<close> does
  (a method of \<^verbatim>\<open>agents/base.py\<close>: it returns the text of the file or raises) and the
  current working directory.
\<close>

record environment =
  approval :: string
  popen :: "exn + subprocess"
  output_file_read :: "exn + string"
  getcwd :: string

datatype effect =
    Print string
  | Input string
  | Spawn "string list" string
  | Kill
  | ReadOutputFile

type_synonym 'a io = "effect list \<times> (exn + 'a)"

definition dashes :: string where
  "dashes = replicate 50 CHR ''-''"

text \<open>Lines 165 to 173: one line of output is decoded and displayed.\<close>

definition handle_line :: "pylib \<Rightarrow> string \<Rightarrow> stmt" where
  "handle_line lib output =
     (case json_loads lib (strip output) of
        None \<Rightarrow> (if strip output \<noteq> [] then ([''[Output]: '' @ strip output], None)
                 else ([], None))
      | Some json_obj \<Rightarrow> display_claude_progress lib json_obj)"

text \<open>
  Lines 160 to 173, the \<^verbatim>\<open>while True\<close> loop. It is left when \<^verbatim>\<open>readline\<close> returns the
  empty string and \<^verbatim>\<open>poll()\<close> returns a return code, or by an exception of the display.
  On a process that never exits the loop goes on for ever.
\<close>

partial_function (option) stream_loop ::
  "pylib \<Rightarrow> int option \<Rightarrow> string list \<Rightarrow> effect list \<Rightarrow> string list
    \<Rightarrow> (string list \<times> int) io option"
where
  "stream_loop lib exit pending tr stdout_lines =
     (case pending of
        [] \<Rightarrow>
          (case exit of
             None \<Rightarrow> stream_loop lib exit [] tr stdout_lines
           | Some rc \<Rightarrow> Some (tr, Inr (stdout_lines, rc)))
      | output # rest \<Rightarrow>
          if output = [] then stream_loop lib exit rest tr stdout_lines
          else
            (case handle_line lib output of
               (ps, Some e) \<Rightarrow> Some (tr @ map Print ps, Inl e)
             | (ps, None) \<Rightarrow>
                 stream_loop lib exit rest (tr @ map Print ps)
                   (stdout_lines @ [strip output])))"

declare stream_loop.simps [code]

text \<open>
  \<^verbatim>\<open>process.wait(timeout=...)\<close> on a process whose return code \<^verbatim>\<open>poll()\<close> has recorded
  returns that code at once; on a process still running when the time is over it raises.
\<close>

definition popen_wait :: "int option \<Rightarrow> int \<Rightarrow> exn + int" where
  "popen_wait returncode timeout =
     (case returncode of Some rc \<Rightarrow> Inr rc | None \<Rightarrow> Inl TimeoutExpired)"

text \<open>Lines 187 to 189: the handler of the inner \<^verbatim>\<open>try\<close>.\<close>

definition inner_handler :: "agent \<Rightarrow> effect list \<Rightarrow> exn \<Rightarrow> 'a io" where
  "inner_handler ag tr e =
     (if e = TimeoutExpired then
        (tr @ [Kill],
         Inl (AgentTimeoutException (agent_name ag) (agent_timeout_seconds ag)
                ''Claude command execution timed out''))
      else (tr, Inl e))"

text \<open>
  Lines 159 to 189: the loop, the wait for the return code and the capture of the
  standard error. The result is the return code and \<^verbatim>\<open>stderr_lines\<close>.
\<close>

definition supervise ::
  "pylib \<Rightarrow> agent \<Rightarrow> subprocess \<Rightarrow> effect list \<Rightarrow> (int \<times> string list) io option" where
  "supervise lib ag p tr =
     (case stream_loop lib (exit_status p) (reads p) tr [] of
        None \<Rightarrow> None
      | Some (tr1, Inl e) \<Rightarrow> Some (inner_handler ag tr1 e)
      | Some (tr1, Inr (stdout_lines, rc)) \<Rightarrow>
          (case popen_wait (Some rc) (agent_timeout_seconds ag) of
             Inl e \<Rightarrow> Some (inner_handler ag tr1 e)
           | Inr return_code \<Rightarrow>
               Some (tr1 @ [Print (''\<newline>'' @ dashes),
                            Print (''Claude execution completed with return code: ''
                                   @ str_int return_code)],
                     Inr (return_code,
                          if stderr_text p \<noteq> [] then [stderr_text p] else []))))"

text \<open>Lines 191 to 207: the verdict from the return code and the output file.\<close>

definition reconcile ::
  "agent \<Rightarrow> environment \<Rightarrow> effect list \<Rightarrow> int \<times> string list \<Rightarrow> AgentResponse io" where
  "reconcile ag env tr res =
     (case res of (return_code, stderr_lines) \<Rightarrow>
        if return_code = 0 then
          (case output_file_read env of
             Inl e \<Rightarrow>
               (tr @ [Print (''Reading output from '' @ output_file ag @ ''...''),
                      ReadOutputFile], Inl e)
           | Inr text \<Rightarrow>
               (tr @ [Print (''Reading output from '' @ output_file ag @ ''...''),
                      ReadOutputFile],
                Inr \<lparr>content = text, success = True, error_message = None\<rparr>))
        else
          (let error_msg =
                 (if join ''\<newline>'' stderr_lines \<noteq> [] then join ''\<newline>'' stderr_lines
                  else ''Command failed with return code '' @ str_int return_code)
           in (tr @ [Print (''ERROR: Claude command failed: '' @ error_msg)],
               Inr \<lparr>content = [], success = False, error_message = Some error_msg\<rparr>)))"

text \<open>Line 130: the prompt sent to the agent.\<close>

definition combined_prompt :: "agent \<Rightarrow> string \<Rightarrow> string" where
  "combined_prompt ag prompt =
     prompt
     @ ''\<newline>\<newline>After completing the above task, please save a comprehensive summary of everything you did to a file called ''
     @ [CHR 0x27] @ output_file ag @ [CHR 0x27]
     @ '' in the current directory. Include:\<newline>- All changes made\<newline>- Explanations of what was done.\<newline>\<newline>IMPORTANT: Do NOT create or update any documentation files (such as README.md or docs/*) unless you are explicitly asked to do so in the original prompt. If you believe that creating a documentation file would help you better implement the required coding task, you may create it, but you must delete it once you are finished and before you finish the task.''"

definition cmd :: "agent \<Rightarrow> string \<Rightarrow> string list" where
  "cmd ag prompt =
     [''claude'', ''-p'', combined_prompt ag prompt, ''--output-format'', ''stream-json'',
      ''--dangerously-skip-permissions'']"

text \<open>Lines 128 to 207: the body of the outer \<^verbatim>\<open>try\<close>.\<close>

definition try_body ::
  "pylib \<Rightarrow> agent \<Rightarrow> environment \<Rightarrow> string \<Rightarrow> effect list \<Rightarrow> AgentResponse io option" where
  "try_body lib ag env prompt tr =
     (let tr1 = tr @ [Print (''Executing prompt in '' @ agent_name ag
                             @ '' headless mode. Prompt: '' @ prompt),
                      Print (''Streaming Claude'' @ [CHR 0x27] @ ''s response in real-time...''),
                      Print dashes,
                      Spawn (cmd ag prompt) (repo_dir ag)]
      in case popen env of
           Inl e \<Rightarrow> Some (tr1, Inl e)
         | Inr p \<Rightarrow>
             (case supervise lib ag p tr1 of
                None \<Rightarrow> None
              | Some (tr2, Inl e) \<Rightarrow> Some (tr2, Inl e)
              | Some (tr2, Inr res) \<Rightarrow> Some (reconcile ag env tr2 res)))"

text \<open>
  Which exceptions the clause \<^verbatim>\<open>except Exception\<close> catches: every exception of the
  model is a subclass of \<^verbatim>\<open>Exception\<close> in Python, and \<^verbatim>\<open>AgentTimeoutException\<close> is one when
  the parameter says so.
\<close>

fun is_Exception :: "agent \<Rightarrow> exn \<Rightarrow> bool" where
  "is_Exception ag (AgentTimeoutException a t m) = timeout_is_Exception ag"
| "is_Exception ag e = True"

text \<open>Lines 209 to 217: the handlers of the outer \<^verbatim>\<open>try\<close>.\<close>

fun outer_handler :: "pylib \<Rightarrow> agent \<Rightarrow> AgentResponse io \<Rightarrow> AgentResponse io" where
  "outer_handler lib ag (tr, Inr r) = (tr, Inr r)"
| "outer_handler lib ag (tr, Inl e) =
     (if e = TimeoutExpired then
        (tr, Inl (AgentTimeoutException (agent_name ag) (agent_timeout_seconds ag)
                    ''Claude command timed out''))
      else if is_Exception ag e then
        (tr, Inr \<lparr>content = [], success = False,
                  error_message = Some (''Failed to execute Claude command: '' @ str_exn lib e)\<rparr>)
      else (tr, Inl e))"

text \<open>Lines 122 to 126: the response to an operator who does not approve.\<close>

definition cancelled :: AgentResponse where
  "cancelled =
     \<lparr>content = ''Operation cancelled by user'', success = False,
      error_message = Some ''User did not approve execution with dangerous permissions''\<rparr>"

text \<open>
  \<^verbatim>\<open>execute_prompt\<close>, lines 116 to 217. The result is \<open>None\<close> when the call does not
  return; otherwise it is the effects of the call in order and either the response
  returned or the exception raised.
\<close>

definition execute_prompt ::
  "pylib \<Rightarrow> agent \<Rightarrow> environment \<Rightarrow> string \<Rightarrow> AgentResponse io option" where
  "execute_prompt lib ag env prompt =
     (let tr = [Print ''\<newline>WARNING: This will execute Claude with --dangerously-skip-permissions'',
                Print ''This gives Claude full access to execute commands in the repository directory'',
                Input ''Do you want to continue? (y/n): '']
      in if lower (approval env) \<noteq> ''y'' then Some (tr, Inr cancelled)
         else map_option (outer_handler lib ag) (try_body lib ag env prompt tr))"

text \<open>The response a call returned, if it returned one, and the effects it had.\<close>

fun returned :: "AgentResponse io option \<Rightarrow> AgentResponse option" where
  "returned (Some (tr, Inr r)) = Some r"
| "returned x = None"

fun effects :: "AgentResponse io option \<Rightarrow> effect list" where
  "effects (Some (tr, r)) = tr"
| "effects None = []"

section \<open>Project directory check\<close>

text \<open>
  \<^verbatim>\<open>is_ide_open_with_correct_project\<close>, lines 240 to 257: the lines printed and the value
  returned.
\<close>

definition is_ide_open_with_correct_project :: "agent \<Rightarrow> environment \<Rightarrow> string list \<times> bool" where
  "is_ide_open_with_correct_project ag env =
     (case current_project_name ag of
        None \<Rightarrow>
          ([''Warning: No project name set for '' @ agent_name ag
            @ '', cannot verify project-specific directory''], False)
      | Some name \<Rightarrow>
          if name = [] then
            ([''Warning: No project name set for '' @ agent_name ag
              @ '', cannot verify project-specific directory''], False)
          else
            (let current_project = basename (getcwd env) in
             if py_in (lower name) (lower current_project) then
               ([''SUCCESS: Claude Code is in the correct project directory ''
                 @ [CHR 0x27] @ current_project @ [CHR 0x27]], True)
             else
               ([''Claude Code is in directory '' @ [CHR 0x27] @ current_project @ [CHR 0x27]
                 @ '' but expected project '' @ [CHR 0x27] @ name @ [CHR 0x27]], False)))"

section \<open>Auxiliary notions\<close>

text \<open>
  The exceptions that the display of a decoded line can raise.
\<close>

fun display_error :: "exn \<Rightarrow> bool" where
  "display_error (AttributeError v a) = True"
| "display_error (TypeError v) = True"
| "display_error (ValueError v) = True"
| "display_error e = False"

text \<open>
  The message of a failed command in terms of the process: the captured standard error,
  or the generic message when there is none (line 201).
\<close>

definition failure_text :: "subprocess \<Rightarrow> int \<Rightarrow> string" where
  "failure_text p rc =
     (if stderr_text p \<noteq> [] then stderr_text p
      else ''Command failed with return code '' @ str_int rc)"

text \<open>
  Concrete inputs for the examples: a library whose decoder accepts the line \<^verbatim>\<open>42\<close> only,
  an agent, the user event that carries one tool result with a given text, and the world
  of an operator who approves.
\<close>

definition sample_lib :: pylib where
  "sample_lib =
     \<lparr>json_loads = (\<lambda>s. if s = ''42'' then Some (JInt 42) else None),
      py_repr = (\<lambda>v. ''<value>''),
      fmt_duration = (\<lambda>v. None),
      fmt_cost = (\<lambda>v. None),
      str_exn = (\<lambda>e. ''<exception>'')\<rparr>"

definition sample_agent :: agent where
  "sample_agent =
     \<lparr>agent_name = ''claude_code'', output_file = ''output.txt'',
      repo_dir = ''/work/simulatedev'', current_project_name = Some ''SimulateDev'',
      agent_timeout_seconds = 600, timeout_is_Exception = True\<rparr>"


definition approving :: "subprocess \<Rightarrow> exn + string \<Rightarrow> environment" where
  "approving p file = \<lparr>approval = ''y'', popen = Inr p, output_file_read = file, getcwd = ''/work/simulatedev''\<rparr>"

section \<open>What the display can raise\<close>

lemma seq_error: "snd a = Some e \<or> snd b = Some e" if "snd (seq a b) = Some e"
  using that by (auto simp: seq_def split: prod.splits option.splits)

lemma for_each_error:
  assumes "\<And>x e. snd (body x) = Some e \<Longrightarrow> P e"
  shows "snd (for_each body xs) = Some e \<Longrightarrow> P e"
proof (induction xs)
  case Nil
  then show ?case by simp
next
  case (Cons x xs)
  obtain ps r where bx: "body x = (ps, r)" by (cases "body x")
  show ?case
  proof (cases r)
    case None
    with Cons bx show ?thesis by (auto split: prod.splits)
  next
    case (Some e')
    with Cons.prems bx have "e' = e" by simp
    with Some bx assms[of x e] show ?thesis by simp
  qed
qed

lemma dict_get_error: "dict_get v k d = Inl e \<Longrightarrow> display_error e"
  by (cases v) auto

lemma py_iter_error: "py_iter v = Inl e \<Longrightarrow> display_error e"
  by (cases v) auto

lemma tools_line_error: "tools_line v = Inl e \<Longrightarrow> display_error e"
  by (cases v) (auto split: list.splits)

lemma command_summary_error: "command_summary lib v = Inl e \<Longrightarrow> display_error e"
  by (cases v) auto

lemma show_file_tool_error: "snd (show_file_tool l item) = Some e \<Longrightarrow> display_error e"
  by (auto simp: show_file_tool_def split: sum.splits if_splits json.splits dest: dict_get_error)

lemma show_bash_error: "snd (show_bash lib item) = Some e \<Longrightarrow> display_error e"
  by (auto simp: show_bash_def split: sum.splits if_splits dest: dict_get_error command_summary_error)

lemma display_system_error: "snd (display_system lib obj) = Some e \<Longrightarrow> display_error e"
  by (auto simp: display_system_def seq_def Let_def split: sum.splits if_splits dest: tools_line_error)

lemma display_result_error: "snd (display_result lib obj) = Some e \<Longrightarrow> display_error e"
  by (auto simp: display_result_def seq_def Let_def split: option.splits if_splits)

lemma message_content_error: "message_content obj = Inl e \<Longrightarrow> display_error e"
  by (auto simp: message_content_def split: sum.splits dest: dict_get_error py_iter_error)

lemma display_assistant_item_error:
  "snd (display_assistant_item lib v) = Some e \<Longrightarrow> display_error e"
proof (cases v)
  case (JDict item)
  assume a: "snd (display_assistant_item lib v) = Some e"
  show ?thesis
  proof (cases "lookup item ''type'' JNull = JStr ''text''")
    case True
    with a JDict show ?thesis by (auto split: json.splits if_splits)
  next
    case False
    with a JDict show ?thesis
      by (auto simp: Let_def split: if_splits
               dest!: seq_error dest: show_file_tool_error show_bash_error)
  qed
qed auto

lemma display_user_item_error: "snd (display_user_item v) = Some e \<Longrightarrow> display_error e"
  by (cases v) (auto split: if_splits json.splits)

lemma display_claude_progress_error:
  "snd (display_claude_progress lib v) = Some e \<Longrightarrow> display_error e"
proof (cases v)
  case (JDict obj)
  assume a: "snd (display_claude_progress lib v) = Some e"
  show ?thesis
    using a JDict
    by (auto split: if_splits sum.splits
             dest: display_system_error display_result_error message_content_error
             elim: for_each_error[where P = display_error and e = e, rotated]
                   dest: display_assistant_item_error display_user_item_error)
qed auto

lemma handle_line_error: "snd (handle_line lib l) = Some e \<Longrightarrow> display_error e"
  by (auto simp: handle_line_def split: option.splits if_splits dest: display_claude_progress_error)

lemma display_error_caught: "display_error e \<Longrightarrow> e \<noteq> TimeoutExpired \<and> is_Exception ag e"
  by (cases e) auto

section \<open>The read loop and the supervision of the process\<close>

lemma stream_loop_result:
  "stream_loop lib exit pending tr acc = Some r \<Longrightarrow>
     (case snd r of Inl e \<Rightarrow> display_error e | Inr (ls, c) \<Rightarrow> exit = Some c)"
proof (rule stream_loop.raw_induct[where
         P = "\<lambda>lib exit pending tr acc r.
                case snd r of Inl e \<Rightarrow> display_error e | Inr (ls, c) \<Rightarrow> exit = Some c"])
  fix f lib exit pending tr acc r
  assume IH: "\<And>lib exit pending tr acc r. f lib exit pending tr acc = Some r \<Longrightarrow>
                (case snd r of Inl e \<Rightarrow> display_error e | Inr (ls, c) \<Rightarrow> exit = Some c)"
    and step: "(case pending of
        [] \<Rightarrow> (case exit of None \<Rightarrow> f lib exit [] tr acc | Some rc \<Rightarrow> Some (tr, Inr (acc, rc)))
      | line # rest \<Rightarrow>
          if line = [] then f lib exit rest tr acc
          else (case handle_line lib line of
               (ps, Some e) \<Rightarrow> Some (tr @ map Print ps, Inl e)
             | (ps, None) \<Rightarrow> f lib exit rest (tr @ map Print ps) (acc @ [strip line]))) = Some r"
  show "case snd r of Inl e \<Rightarrow> display_error e | Inr (ls, c) \<Rightarrow> exit = Some c"
  proof (cases pending)
    case Nil
    with step IH show ?thesis by (cases exit) auto
  next
    case (Cons line rest)
    show ?thesis
    proof (cases "line = []")
      case True
      with step Cons IH show ?thesis by simp
    next
      case False
      obtain ps x where h: "handle_line lib line = (ps, x)" by (cases "handle_line lib line")
      show ?thesis
      proof (cases x)
        case None
        with step Cons False h IH show ?thesis by simp
      next
        case (Some e)
        with h have "display_error e" using handle_line_error[of lib line e] by simp
        with step Cons False h Some show ?thesis by auto
      qed
    qed
  qed
qed

lemma stream_loop_never_exits:
  "stream_loop lib exit pending tr acc = Some r \<Longrightarrow> \<not> (exit = None \<and> pending = [])"
proof (rule stream_loop.raw_induct[where
         P = "\<lambda>lib exit pending tr acc r. \<not> (exit = None \<and> pending = [])"])
  fix f lib exit pending tr acc r
  assume IH: "\<And>lib exit pending tr acc r. f lib exit pending tr acc = Some r \<Longrightarrow>
                \<not> (exit = None \<and> pending = [])"
    and step: "(case pending of
        [] \<Rightarrow> (case exit of None \<Rightarrow> f lib exit [] tr acc | Some rc \<Rightarrow> Some (tr, Inr (acc, rc)))
      | line # rest \<Rightarrow>
          if line = [] then f lib exit rest tr acc
          else (case handle_line lib line of
               (ps, Some e) \<Rightarrow> Some (tr @ map Print ps, Inl e)
             | (ps, None) \<Rightarrow> f lib exit rest (tr @ map Print ps) (acc @ [strip line]))) = Some r"
  show "\<not> (exit = None \<and> pending = [])"
  proof
    assume "exit = None \<and> pending = []"
    with step have "f lib None [] tr acc = Some r" by simp
    from IH[OF this] show False by simp
  qed
qed

lemma stream_loop_hangs: "stream_loop lib None [] tr acc = None"
  using stream_loop_never_exits[of lib None "[]" tr acc] by (cases "stream_loop lib None [] tr acc") auto

lemma stream_loop_returns: "\<exists>r. stream_loop lib (Some rc) pending tr acc = Some r"
proof (induction pending arbitrary: tr acc)
  case Nil
  show ?case by (simp add: stream_loop.simps)
next
  case (Cons line rest)
  show ?case
    using Cons.IH
    by (subst stream_loop.simps) (auto split: prod.splits option.splits)
qed

lemma stream_loop_clean:
  "list_all (\<lambda>l. snd (handle_line lib l) = None) pending \<Longrightarrow>
   \<exists>tr' ls. stream_loop lib (Some rc) pending tr acc = Some (tr', Inr (ls, rc))"
proof (induction pending arbitrary: tr acc)
  case Nil
  show ?case by (simp add: stream_loop.simps)
next
  case (Cons line rest)
  then show ?case
    by (subst stream_loop.simps) (auto split: prod.splits option.splits)
qed

lemma stream_loop_raises:
  assumes "list_all (\<lambda>x. snd (handle_line lib x) = None) pre"
    and "l \<noteq> []"
    and "snd (handle_line lib l) = Some e"
  shows "\<exists>tr'. stream_loop lib exit (pre @ l # post) tr acc = Some (tr', Inl e)"
  using assms(1)
proof (induction pre arbitrary: tr acc)
  case Nil
  obtain ps where "handle_line lib l = (ps, Some e)"
    using assms(3) by (cases "handle_line lib l") auto
  with assms(2) show ?case by (simp add: stream_loop.simps)
next
  case (Cons x pre)
  then show ?case
    by (subst stream_loop.simps) (auto split: prod.splits option.splits)
qed

lemma stream_loop_no_kill:
  "stream_loop lib exit pending tr acc = Some r \<Longrightarrow> Kill \<in> set (fst r) \<longrightarrow> Kill \<in> set tr"
proof (rule stream_loop.raw_induct[where
         P = "\<lambda>lib exit pending tr acc r. Kill \<in> set (fst r) \<longrightarrow> Kill \<in> set tr"])
  fix f lib exit pending tr acc r
  assume IH: "\<And>lib exit pending tr acc r. f lib exit pending tr acc = Some r \<Longrightarrow>
                Kill \<in> set (fst r) \<longrightarrow> Kill \<in> set tr"
    and step: "(case pending of
        [] \<Rightarrow> (case exit of None \<Rightarrow> f lib exit [] tr acc | Some rc \<Rightarrow> Some (tr, Inr (acc, rc)))
      | line # rest \<Rightarrow>
          if line = [] then f lib exit rest tr acc
          else (case handle_line lib line of
               (ps, Some e) \<Rightarrow> Some (tr @ map Print ps, Inl e)
             | (ps, None) \<Rightarrow> f lib exit rest (tr @ map Print ps) (acc @ [strip line]))) = Some r"
  show "Kill \<in> set (fst r) \<longrightarrow> Kill \<in> set tr"
  proof (cases pending)
    case Nil
    with step IH show ?thesis by (cases exit) auto
  next
    case (Cons line rest)
    show ?thesis
    proof (cases "line = []")
      case True
      with step Cons IH show ?thesis by simp
    next
      case False
      obtain ps x where h: "handle_line lib line = (ps, x)" by (cases "handle_line lib line")
      show ?thesis
      proof (cases x)
        case None
        with step Cons False h have "f lib exit rest (tr @ map Print ps) (acc @ [strip line]) = Some r"
          by simp
        from IH[OF this] show ?thesis by auto
      next
        case (Some e)
        with step Cons False h show ?thesis by auto
      qed
    qed
  qed
qed

lemma supervise_result:
  assumes "supervise lib ag p tr = Some (tr', res)"
  shows "case res of
           Inl e \<Rightarrow> display_error e
         | Inr (rc, errs) \<Rightarrow> exit_status p = Some rc
                              \<and> errs = (if stderr_text p \<noteq> [] then [stderr_text p] else [])"
proof (cases "stream_loop lib (exit_status p) (reads p) tr []")
  case None
  with assms show ?thesis by (simp add: supervise_def)
next
  case (Some r)
  obtain tr1 x where r: "r = (tr1, x)" by (cases r)
  from stream_loop_result[OF Some] r
  have x: "case x of Inl e \<Rightarrow> display_error e | Inr (ls, c) \<Rightarrow> exit_status p = Some c" by simp
  show ?thesis
  proof (cases x)
    case (Inl e)
    with x have "display_error e" by simp
    with assms Some r Inl show ?thesis
      using display_error_caught[of e ag]
      by (auto simp: supervise_def inner_handler_def)
  next
    case (Inr y)
    obtain ls c where y: "y = (ls, c)" by (cases y)
    with x Inr have "exit_status p = Some c" by simp
    with assms Some r Inr y show ?thesis
      by (auto simp: supervise_def popen_wait_def)
  qed
qed

lemma supervise_returns:
  assumes "exit_status p = Some rc"
  shows "\<exists>r. supervise lib ag p tr = Some r"
proof -
  from stream_loop_returns[of lib rc "reads p" tr "[]"] assms
  obtain r where "stream_loop lib (exit_status p) (reads p) tr [] = Some r" by auto
  then show ?thesis
    by (auto simp: supervise_def popen_wait_def split: prod.splits sum.splits)
qed

lemma supervise_hangs:
  "exit_status p = None \<Longrightarrow> reads p = [] \<Longrightarrow> supervise lib ag p tr = None"
  by (simp add: supervise_def stream_loop_hangs)

lemma supervise_clean:
  assumes "exit_status p = Some rc"
    and "list_all (\<lambda>l. snd (handle_line lib l) = None) (reads p)"
  shows "\<exists>tr'. supervise lib ag p tr
            = Some (tr', Inr (rc, if stderr_text p \<noteq> [] then [stderr_text p] else []))"
proof -
  from stream_loop_clean[OF assms(2), of rc tr "[]"] assms(1)
  obtain tr1 ls where "stream_loop lib (exit_status p) (reads p) tr [] = Some (tr1, Inr (ls, rc))"
    by auto
  then show ?thesis by (simp add: supervise_def popen_wait_def)
qed

lemma supervise_raises:
  assumes "reads p = pre @ l # post"
    and "list_all (\<lambda>x. snd (handle_line lib x) = None) pre"
    and "l \<noteq> []"
    and "snd (handle_line lib l) = Some e"
  shows "\<exists>tr'. supervise lib ag p tr = Some (tr', Inl e)"
proof -
  from stream_loop_raises[OF assms(2,3,4), of "exit_status p" post tr "[]"] assms(1)
  obtain tr1 where s: "stream_loop lib (exit_status p) (reads p) tr [] = Some (tr1, Inl e)"
    by auto
  have "e \<noteq> TimeoutExpired"
    using handle_line_error[OF assms(4)] display_error_caught[of e ag] by simp
  with s show ?thesis by (simp add: supervise_def inner_handler_def)
qed

lemma supervise_no_kill:
  assumes "supervise lib ag p tr = Some (tr', res)" and "Kill \<in> set tr'"
  shows "Kill \<in> set tr"
proof (cases "stream_loop lib (exit_status p) (reads p) tr []")
  case None
  with assms show ?thesis by (simp add: supervise_def)
next
  case (Some r)
  obtain tr1 x where r: "r = (tr1, x)" by (cases r)
  from stream_loop_result[OF Some] r
  have x: "case x of Inl e \<Rightarrow> display_error e | Inr (ls, c) \<Rightarrow> exit_status p = Some c" by simp
  have k: "Kill \<in> set tr1 \<Longrightarrow> Kill \<in> set tr"
    using stream_loop_no_kill[OF Some] r by simp
  show ?thesis
  proof (cases x)
    case (Inl e)
    with x have "e \<noteq> TimeoutExpired" using display_error_caught[of e ag] by simp
    with assms Some r Inl k show ?thesis
      by (auto simp: supervise_def inner_handler_def)
  next
    case (Inr y)
    obtain ls c where y: "y = (ls, c)" by (cases y)
    with assms Some r Inr k show ?thesis
      by (auto simp: supervise_def popen_wait_def)
  qed
qed

lemma try_body_result:
  assumes "try_body lib ag env prompt tr = Some (tr', x)"
  shows "case x of
           Inl e \<Rightarrow> popen env = Inl e \<or> display_error e
                     \<or> (\<exists>p. popen env = Inr p \<and> exit_status p = Some 0
                             \<and> output_file_read env = Inl e)
         | Inr r \<Rightarrow> (\<exists>p. popen env = Inr p \<and> exit_status p = Some 0
                          \<and> output_file_read env = Inr (content r)
                          \<and> success r \<and> error_message r = None)
                    \<or> (\<exists>p rc. popen env = Inr p \<and> exit_status p = Some rc \<and> rc \<noteq> 0
                          \<and> r = \<lparr>content = [], success = False,
                                  error_message = Some (failure_text p rc)\<rparr>)"
proof (cases "popen env")
  case (Inl e)
  with assms show ?thesis by (auto simp: try_body_def Let_def)
next
  case (Inr p)
  let ?tr1 = "tr @ [Print (''Executing prompt in '' @ agent_name ag
                             @ '' headless mode. Prompt: '' @ prompt),
                      Print (''Streaming Claude'' @ [CHR 0x27] @ ''s response in real-time...''),
                      Print dashes,
                      Spawn (cmd ag prompt) (repo_dir ag)]"
  from assms Inr obtain tr2 res where s: "supervise lib ag p ?tr1 = Some (tr2, res)"
    by (auto simp: try_body_def Let_def split: option.splits)
  note sr = supervise_result[OF s]
  show ?thesis
  proof (cases res)
    case (Inl e)
    with sr have "display_error e" by simp
    with assms Inr s Inl show ?thesis by (auto simp: try_body_def Let_def)
  next
    case (Inr y)
    obtain rc errs where y: "y = (rc, errs)" by (cases y)
    with sr Inr have ex: "exit_status p = Some rc"
      and errs: "errs = (if stderr_text p \<noteq> [] then [stderr_text p] else [])" by auto
    from assms \<open>popen env = Inr p\<close> s Inr y
    have rec: "reconcile ag env tr2 (rc, errs) = (tr', x)" by (simp add: try_body_def Let_def)
    show ?thesis
    proof (cases "rc = 0")
      case True
      with rec ex \<open>popen env = Inr p\<close> show ?thesis
        by (cases "output_file_read env") (auto simp: reconcile_def)
    next
      case False
      with rec ex errs \<open>popen env = Inr p\<close> show ?thesis
        by (auto simp: reconcile_def failure_text_def Let_def)
    qed
  qed
qed

lemma execute_prompt_result:
  assumes "lower (approval env) = ''y''"
    and "returned (execute_prompt lib ag env prompt) = Some r"
  shows "(\<exists>p. popen env = Inr p \<and> exit_status p = Some 0
               \<and> output_file_read env = Inr (content r)
               \<and> success r \<and> error_message r = None)
         \<or> (\<exists>p rc. popen env = Inr p \<and> exit_status p = Some rc \<and> rc \<noteq> 0
               \<and> r = \<lparr>content = [], success = False,
                       error_message = Some (failure_text p rc)\<rparr>)
         \<or> (\<exists>e. r = \<lparr>content = [], success = False,
                       error_message = Some (''Failed to execute Claude command: ''
                                             @ str_exn lib e)\<rparr>)"
proof -
  let ?tr = "[Print ''\<newline>WARNING: This will execute Claude with --dangerously-skip-permissions'',
                Print ''This gives Claude full access to execute commands in the repository directory'',
                Input ''Do you want to continue? (y/n): '']"
  from assms have ex: "execute_prompt lib ag env prompt
      = map_option (outer_handler lib ag) (try_body lib ag env prompt ?tr)"
    by (simp add: execute_prompt_def)
  with assms(2) obtain tr' x where tb: "try_body lib ag env prompt ?tr = Some (tr', x)"
    by (cases "try_body lib ag env prompt ?tr") auto
  note tr = try_body_result[OF tb]
  show ?thesis
  proof (cases x)
    case (Inl e)
    with assms(2) ex tb show ?thesis by (auto split: if_splits)
  next
    case (Inr r')
    with assms(2) ex tb have "r' = r" by simp
    with tr Inr have "(\<exists>p. popen env = Inr p \<and> exit_status p = Some 0
               \<and> output_file_read env = Inr (content r)
               \<and> success r \<and> error_message r = None)
         \<or> (\<exists>p rc. popen env = Inr p \<and> exit_status p = Some rc \<and> rc \<noteq> 0
               \<and> r = \<lparr>content = [], success = False,
                       error_message = Some (failure_text p rc)\<rparr>)" by simp
    then show ?thesis by blast
  qed
qed

text \<open>
  An exception that leaves the body of the outer \<^verbatim>\<open>try\<close> and that the clause
  \<^verbatim>\<open>except Exception\<close> catches becomes a failed response. A process that has exited with
  a code other than zero, or whose output file cannot be read, ends in a failed response
  with a message, whatever it printed.
\<close>

lemma caught_exception:
  assumes "lower (approval env) = ''y''"
    and "try_body lib ag env prompt
           [Print ''\<newline>WARNING: This will execute Claude with --dangerously-skip-permissions'',
            Print ''This gives Claude full access to execute commands in the repository directory'',
            Input ''Do you want to continue? (y/n): ''] = Some (tr', Inl e)"
    and "e \<noteq> TimeoutExpired" and "is_Exception ag e"
  shows "returned (execute_prompt lib ag env prompt)
      = Some \<lparr>content = [], success = False,
               error_message = Some (''Failed to execute Claude command: '' @ str_exn lib e)\<rparr>"
  using assms by (simp add: execute_prompt_def)

lemma exited_process_fails:
  assumes "lower (approval env) = ''y''"
    and "popen env = Inr p"
    and "exit_status p = Some n"
    and "n \<noteq> 0 \<or> output_file_read env = Inl (OSError msg)"
  shows "\<exists>r m. returned (execute_prompt lib ag env prompt) = Some r
               \<and> \<not> success r \<and> error_message r = Some m \<and> m \<noteq> []"
proof -
  let ?tr = "[Print ''\<newline>WARNING: This will execute Claude with --dangerously-skip-permissions'',
                Print ''This gives Claude full access to execute commands in the repository directory'',
                Input ''Do you want to continue? (y/n): '']"
  let ?tr1 = "?tr @ [Print (''Executing prompt in '' @ agent_name ag
                             @ '' headless mode. Prompt: '' @ prompt),
                      Print (''Streaming Claude'' @ [CHR 0x27] @ ''s response in real-time...''),
                      Print dashes,
                      Spawn (cmd ag prompt) (repo_dir ag)]"
  have ex: "execute_prompt lib ag env prompt
      = map_option (outer_handler lib ag) (try_body lib ag env prompt ?tr)"
    using assms(1) by (simp add: execute_prompt_def)
  from supervise_returns[OF assms(3), of lib ag ?tr1]
  obtain tr2 res where s: "supervise lib ag p ?tr1 = Some (tr2, res)" by auto
  note sr = supervise_result[OF s]
  show ?thesis
  proof (cases res)
    case (Inl e)
    with sr have "display_error e" by simp
    then have "e \<noteq> TimeoutExpired" "is_Exception ag e"
      using display_error_caught[of e ag] by simp_all
    moreover from s Inl assms(2) have "try_body lib ag env prompt ?tr = Some (tr2, Inl e)"
      by (simp add: try_body_def Let_def)
    ultimately show ?thesis
      using caught_exception[OF assms(1), of lib ag prompt tr2 e] by simp
  next
    case (Inr y)
    obtain rc errs where y: "y = (rc, errs)" by (cases y)
    with sr Inr assms(3) have rc: "rc = n" by simp
    show ?thesis
    proof (cases "n = 0")
      case True
      with assms(4) have o: "output_file_read env = Inl (OSError msg)" by simp
      from s Inr y rc True assms(2) o
      have "\<exists>tr'. try_body lib ag env prompt ?tr = Some (tr', Inl (OSError msg))"
        by (simp add: try_body_def Let_def reconcile_def)
      then obtain tr' where "try_body lib ag env prompt ?tr = Some (tr', Inl (OSError msg))" ..
      from caught_exception[OF assms(1) this] show ?thesis by simp
    next
      case False
      with s Inr y rc assms(2) ex
      show ?thesis by (auto simp: try_body_def Let_def reconcile_def)
    qed
  qed
qed

section \<open>Strings\<close>

text \<open>
  The test \<^verbatim>\<open>needle in s\<close> holds exactly when the needle occurs in the string.
\<close>

lemma starts_with_iff: "starts_with s n \<longleftrightarrow> (\<exists>post. s = n @ post)"
  by (induction s n rule: starts_with.induct) auto

lemma py_in_iff: "py_in n s \<longleftrightarrow> (\<exists>pre post. s = pre @ n @ post)"
proof (induction s)
  case Nil
  show ?case by auto
next
  case (Cons c cs)
  show ?case
  proof
    assume "py_in n (c # cs)"
    then consider "starts_with (c # cs) n" | "py_in n cs" by auto
    then show "\<exists>pre post. c # cs = pre @ n @ post"
    proof cases
      case 1
      then obtain post where "c # cs = n @ post" by (auto simp: starts_with_iff)
      then have "c # cs = [] @ n @ post" by simp
      then show ?thesis by blast
    next
      case 2
      with Cons.IH obtain pre post where "cs = pre @ n @ post" by auto
      then have "c # cs = (c # pre) @ n @ post" by simp
      then show ?thesis by blast
    qed
  next
    assume "\<exists>pre post. c # cs = pre @ n @ post"
    then obtain pre post where eq: "c # cs = pre @ n @ post" by blast
    show "py_in n (c # cs)"
    proof (cases pre)
      case Nil
      with eq have "starts_with (c # cs) n" by (auto simp: starts_with_iff)
      then show ?thesis by simp
    next
      case (Cons d pre')
      with eq have "cs = pre' @ n @ post" by simp
      with Cons.IH have "py_in n cs" by blast
      then show ?thesis by simp
    qed
  qed
qed

lemma lower_y: "lower ''y'' = ''y''"
  by (simp add: lower_def lower_char_def upper_letters_def lower_letters_def)

lemma lower_char_y: "lower_char c = CHR ''y'' \<longleftrightarrow> c = CHR ''y'' \<or> c = CHR ''Y''"
  by (auto simp: lower_char_def upper_letters_def lower_letters_def split: if_splits)

lemma lower_eq_y: "lower a = ''y'' \<longleftrightarrow> a = ''y'' \<or> a = ''Y''"
  by (cases a) (auto simp: lower_def lower_char_y)

lemma strip_42: "strip ''42\<newline>'' = ''42''"
  by (simp add: strip_def is_space_def)

section \<open>C1: timeout\<close>

text \<open>
  The timeout handlers, taken alone: were \<^verbatim>\<open>process.wait\<close> to raise \<^verbatim>\<open>TimeoutExpired\<close>, the
  inner handler would kill the process and raise \<^verbatim>\<open>AgentTimeoutException\<close> inside the outer
  \<^verbatim>\<open>try\<close>, whose clause \<^verbatim>\<open>except Exception\<close> turns it into an ordinary failed response when
  the class derives from \<^verbatim>\<open>Exception\<close>.
\<close>

lemma timeout_is_swallowed:
  "timeout_is_Exception ag \<Longrightarrow>
   outer_handler lib ag (inner_handler ag tr TimeoutExpired) =
     (tr @ [Kill],
      Inr \<lparr>content = [], success = False,
           error_message = Some (''Failed to execute Claude command: ''
             @ str_exn lib (AgentTimeoutException (agent_name ag) (agent_timeout_seconds ag)
                              ''Claude command execution timed out''))\<rparr>)"
  by (simp add: inner_handler_def)

text \<open>
  An exception that leaves \<^verbatim>\<open>execute_prompt\<close> comes from \<^verbatim>\<open>Popen\<close> or from the reader of
  the output file, never from the wait for the process.
\<close>

lemma execute_prompt_raises:
  assumes "execute_prompt lib ag env prompt = Some (tr, Inl e)"
  shows "popen env = Inl TimeoutExpired \<or> output_file_read env = Inl TimeoutExpired
         \<or> popen env = Inl e \<or> output_file_read env = Inl e"
proof (cases "lower (approval env) = ''y''")
  case False
  with assms show ?thesis by (simp add: execute_prompt_def)
next
  case True
  let ?tr = "[Print ''\<newline>WARNING: This will execute Claude with --dangerously-skip-permissions'',
                Print ''This gives Claude full access to execute commands in the repository directory'',
                Input ''Do you want to continue? (y/n): '']"
  from True have ex: "execute_prompt lib ag env prompt
      = map_option (outer_handler lib ag) (try_body lib ag env prompt ?tr)"
    by (simp add: execute_prompt_def)
  with assms obtain tr' x where tb: "try_body lib ag env prompt ?tr = Some (tr', x)"
    by (cases "try_body lib ag env prompt ?tr") auto
  note r = try_body_result[OF tb]
  show ?thesis
  proof (cases x)
    case (Inr r')
    with assms ex tb show ?thesis by simp
  next
    case (Inl e')
    with r have c: "popen env = Inl e' \<or> display_error e'
        \<or> (\<exists>p. popen env = Inr p \<and> exit_status p = Some 0 \<and> output_file_read env = Inl e')"
      by simp
    from assms ex tb Inl have o: "outer_handler lib ag (tr', Inl e') = (tr, Inl e)" by simp
    show ?thesis
    proof (cases "e' = TimeoutExpired")
      case True
      with c show ?thesis by auto
    next
      case False
      with o have "e' = e" and "\<not> is_Exception ag e'" by (auto split: if_splits)
      with c display_error_caught[of e' ag] show ?thesis by auto
    qed
  qed
qed

text \<open>No call of \<^verbatim>\<open>execute_prompt\<close> kills the subprocess.\<close>

lemma execute_prompt_never_kills: "Kill \<notin> set (effects (execute_prompt lib ag env prompt))"
proof (cases "lower (approval env) = ''y''")
  case False
  then show ?thesis by (simp add: execute_prompt_def)
next
  case True
  let ?tr = "[Print ''\<newline>WARNING: This will execute Claude with --dangerously-skip-permissions'',
                Print ''This gives Claude full access to execute commands in the repository directory'',
                Input ''Do you want to continue? (y/n): '']"
  let ?tr1 = "?tr @ [Print (''Executing prompt in '' @ agent_name ag
                             @ '' headless mode. Prompt: '' @ prompt),
                      Print (''Streaming Claude'' @ [CHR 0x27] @ ''s response in real-time...''),
                      Print dashes,
                      Spawn (cmd ag prompt) (repo_dir ag)]"
  from True have ex: "execute_prompt lib ag env prompt
      = map_option (outer_handler lib ag) (try_body lib ag env prompt ?tr)"
    by (simp add: execute_prompt_def)
  have oh: "fst (outer_handler lib ag y) = fst y" for y
    by (cases y; cases "snd y") auto
  have "Kill \<notin> set tr'" if tb: "try_body lib ag env prompt ?tr = Some (tr', x)" for tr' x
  proof (cases "popen env")
    case (Inl e)
    with tb show ?thesis by (auto simp: try_body_def Let_def)
  next
    case (Inr p)
    with tb obtain tr2 res where s: "supervise lib ag p ?tr1 = Some (tr2, res)"
      by (auto simp: try_body_def Let_def split: option.splits)
    have k2: "Kill \<notin> set tr2" using supervise_no_kill[OF s] by auto
    show ?thesis
    proof (cases res)
      case (Inl e)
      with tb Inr s k2 show ?thesis by (auto simp: try_body_def Let_def)
    next
      case r: (Inr y)
      with tb Inr s have "reconcile ag env tr2 y = (tr', x)" by (simp add: try_body_def Let_def)
      with k2 show ?thesis
        by (auto simp: reconcile_def Let_def split: prod.splits if_splits sum.splits)
    qed
  qed
  moreover have "effects (Some y) = fst y" for y :: "AgentResponse io"
    by (cases y) simp
  ultimately show ?thesis
    using ex oh by (cases "try_body lib ag env prompt ?tr") auto
qed

text \<open>
  Claim C1 says that a subprocess which does not exit within the configured timeout makes
  \<^verbatim>\<open>execute_prompt\<close> raise \<^verbatim>\<open>AgentTimeoutException\<close> after killing the subprocess. The code
  calls \<^verbatim>\<open>process.wait(timeout=...)\<close> only after the loop has seen the process exit, so
  the timeout never comes into play: on a subprocess that prints nothing and never exits,
  with the operator's approval, the call does not return at all, whatever the configured
  timeout is. No exception is raised and nothing is killed.
\<close>

theorem execute_prompt_never_times_out:
  "execute_prompt lib ag
     \<lparr>approval = ''y'',
      popen = Inr \<lparr>reads = [], exit_status = None, stderr_text = []\<rparr>,
      output_file_read = Inr [], getcwd = []\<rparr> prompt = None"
  by (simp add: execute_prompt_def try_body_def supervise_hangs lower_y)

section \<open>C2: lines that are not event records\<close>

text \<open>
  An event of an unknown type is decoded and then ignored: nothing is printed for its
  line. A tool result whose content is a list of blocks instead of a string raises.
\<close>

lemma unknown_type_prints_nothing:
  "display_claude_progress lib (JDict [(''type'', JStr ''ping'')]) = ([], None)"
  by (simp add: lookup_def)

lemma tool_result_blocks_raise:
  "display_claude_progress lib
     (JDict [(''type'', JStr ''user''),
             (''message'', JDict [(''content'',
                JList [JDict [(''type'', JStr ''tool_result''),
                              (''content'', JList [JDict [(''type'', JStr ''text''),
                                                          (''text'', JStr ''ok'')]])]])])])
     = ([], Some (AttributeError (JList [JDict [(''type'', JStr ''text''), (''text'', JStr ''ok'')]])
                    ''lower''))"
  by (simp add: lookup_def message_content_def)

text \<open>
  Claim C2 says that no line of the standard output makes the classification raise or
  ends the read loop. The code catches \<^verbatim>\<open>json.JSONDecodeError\<close> only: the line \<^verbatim>\<open>42\<close> is
  valid JSON, the decoder returns the number 42, and \<^verbatim>\<open>_display_claude_progress\<close> raises
  \<^verbatim>\<open>AttributeError\<close> on \<^verbatim>\<open>json_obj.get\<close>. The exception leaves the loop: the next line is
  never read, the return code 0 and the output file are ignored, and the call returns a
  failed response.
\<close>

theorem handle_line_raises:
  "handle_line (lib\<lparr>json_loads := (\<lambda>s. if s = ''42'' then Some (JInt 42) else None)\<rparr>) ''42\<newline>''
     = ([], Some (AttributeError (JInt 42) ''get''))
   \<and> execute_prompt (lib\<lparr>json_loads := (\<lambda>s. if s = ''42'' then Some (JInt 42) else None)\<rparr>) ag
       \<lparr>approval = ''y'',
        popen = Inr \<lparr>reads = [''42\<newline>'', ''more output\<newline>''], exit_status = Some 0,
                     stderr_text = []\<rparr>,
        output_file_read = Inr ''summary'', getcwd = []\<rparr> prompt
     = Some ([Print ''\<newline>WARNING: This will execute Claude with --dangerously-skip-permissions'',
              Print ''This gives Claude full access to execute commands in the repository directory'',
              Input ''Do you want to continue? (y/n): '',
              Print (''Executing prompt in '' @ agent_name ag @ '' headless mode. Prompt: '' @ prompt),
              Print (''Streaming Claude'' @ [CHR 0x27] @ ''s response in real-time...''),
              Print dashes,
              Spawn (cmd ag prompt) (repo_dir ag)],
             Inr \<lparr>content = [], success = False,
                  error_message = Some (''Failed to execute Claude command: ''
                                        @ str_exn lib (AttributeError (JInt 42) ''get''))\<rparr>)"
  by (simp add: handle_line_def strip_42 execute_prompt_def try_body_def supervise_def
        stream_loop.simps inner_handler_def lower_y)

section \<open>C3: the invariant of the outcome\<close>

text \<open>
  The claim as stated fails when the operator declines: the response is not a success,
  and its content is the text \<^verbatim>\<open>Operation cancelled by user\<close>.
\<close>

theorem declined_content_counterexample:
  "returned (execute_prompt sample_lib sample_agent
      \<lparr>approval = ''n'', popen = Inl (OSError ''claude''),
       output_file_read = Inl (OSError ''output.txt''), getcwd = ''/work/simulatedev''\<rparr>
      ''fix the bug'') = Some cancelled
   \<and> \<not> success cancelled \<and> content cancelled = ''Operation cancelled by user''
   \<and> content cancelled \<noteq> []"
  by (simp add: execute_prompt_def cancelled_def lower_def lower_char_def upper_letters_def lower_letters_def)

text \<open>
  Claim C3, amended: for every response that \<^verbatim>\<open>execute_prompt\<close> returns, a success has no
  error message and its content is the text read from the output file; a failure has
  the empty content, except the response to an operator who declines, whose content is
  \<^verbatim>\<open>Operation cancelled by user\<close>.
\<close>

theorem outcome_invariant:
  assumes "returned (execute_prompt lib ag env prompt) = Some r"
  shows "(success r \<longrightarrow> error_message r = None \<and> output_file_read env = Inr (content r))
       \<and> (\<not> success r \<longrightarrow>
            content r = (if lower (approval env) = ''y'' then []
                         else ''Operation cancelled by user''))"
proof (cases "lower (approval env) = ''y''")
  case True
  from execute_prompt_result[OF True assms] True show ?thesis by auto
next
  case False
  with assms have "r = cancelled" by (simp add: execute_prompt_def)
  with False show ?thesis by (simp add: cancelled_def)
qed

theorem outcome_invariant_witness:
  "returned (execute_prompt sample_lib sample_agent
      (approving \<lparr>reads = [], exit_status = Some 0, stderr_text = []\<rparr> (Inr ''summary''))
      ''fix the bug'')
     = Some \<lparr>content = ''summary'', success = True, error_message = None\<rparr>
   \<and> output_file_read (approving \<lparr>reads = [], exit_status = Some 0, stderr_text = []\<rparr> (Inr ''summary''))
       = Inr ''summary''"
  using outcome_invariant[of sample_lib sample_agent
      "approving \<lparr>reads = [], exit_status = Some 0, stderr_text = []\<rparr> (Inr ''summary'')"
      "''fix the bug''" "\<lparr>content = ''summary'', success = True, error_message = None\<rparr>"]
  by (simp add: approving_def execute_prompt_def try_body_def supervise_def stream_loop.simps
        popen_wait_def reconcile_def lower_y)

section \<open>C4: an output file that cannot be read\<close>

text \<open>
  Claim C4: when the operator approves, the subprocess exits with code 0 and reading the
  output file raises an operating system error, \<^verbatim>\<open>execute_prompt\<close> returns, and the response
  is a failure with a message that is not empty. This holds whatever the subprocess
  printed.
\<close>

theorem unreadable_artifact_fails:
  assumes "lower (approval env) = ''y''"
    and "popen env = Inr p"
    and "exit_status p = Some 0"
    and "output_file_read env = Inl (OSError msg)"
  shows "\<exists>r m. returned (execute_prompt lib ag env prompt) = Some r
               \<and> \<not> success r \<and> error_message r = Some m \<and> m \<noteq> []"
proof -
  let ?tr = "[Print ''\<newline>WARNING: This will execute Claude with --dangerously-skip-permissions'',
                Print ''This gives Claude full access to execute commands in the repository directory'',
                Input ''Do you want to continue? (y/n): '']"
  let ?tr1 = "?tr @ [Print (''Executing prompt in '' @ agent_name ag
                             @ '' headless mode. Prompt: '' @ prompt),
                      Print (''Streaming Claude'' @ [CHR 0x27] @ ''s response in real-time...''),
                      Print dashes,
                      Spawn (cmd ag prompt) (repo_dir ag)]"
  have ex: "execute_prompt lib ag env prompt
      = map_option (outer_handler lib ag) (try_body lib ag env prompt ?tr)"
    using assms(1) by (simp add: execute_prompt_def)
  from supervise_returns[OF assms(3), of lib ag ?tr1]
  obtain tr2 res where s: "supervise lib ag p ?tr1 = Some (tr2, res)" by auto
  note sr = supervise_result[OF s]
  have "\<exists>tr' e. try_body lib ag env prompt ?tr = Some (tr', Inl e)
                \<and> e \<noteq> TimeoutExpired \<and> is_Exception ag e"
  proof (cases res)
    case (Inl e)
    with sr have "display_error e" by simp
    with s Inl assms(2) show ?thesis
      using display_error_caught[of e ag] by (auto simp: try_body_def Let_def)
  next
    case (Inr y)
    obtain rc errs where y: "y = (rc, errs)" by (cases y)
    with sr Inr assms(3) have "rc = 0" by simp
    with s Inr y assms(2,4) show ?thesis
      by (auto simp: try_body_def Let_def reconcile_def)
  qed
  then obtain tr' e where "try_body lib ag env prompt ?tr = Some (tr', Inl e)"
    and "e \<noteq> TimeoutExpired" and "is_Exception ag e" by blast
  with ex have "returned (execute_prompt lib ag env prompt)
      = Some \<lparr>content = [], success = False,
               error_message = Some (''Failed to execute Claude command: '' @ str_exn lib e)\<rparr>"
    by simp
  then show ?thesis by simp
qed

theorem unreadable_artifact_fails_witness:
  "returned (execute_prompt sample_lib sample_agent
      (approving \<lparr>reads = [], exit_status = Some 0, stderr_text = []\<rparr>
                 (Inl (OSError ''output.txt'')))
      ''fix the bug'')
     = Some \<lparr>content = [], success = False,
             error_message = Some ''Failed to execute Claude command: <exception>''\<rparr>"
proof -
  have a: "lower (approval (approving \<lparr>reads = [], exit_status = Some 0, stderr_text = []\<rparr>
                 (Inl (OSError ''output.txt'')))) = ''y''"
    by (simp add: approving_def lower_y)
  from unreadable_artifact_fails[OF a, of "\<lparr>reads = [], exit_status = Some 0, stderr_text = []\<rparr>"
      "''output.txt''" sample_lib sample_agent "''fix the bug''"]
  show ?thesis
    by (simp add: approving_def execute_prompt_def try_body_def supervise_def stream_loop.simps
        popen_wait_def reconcile_def lower_y sample_lib_def)
qed

section \<open>C5: the text of a tool result\<close>


text \<open>The failure line of line 100, in full: the three dots are always there.\<close>

lemma tool_result_failure_line:
  "\<not> py_in ''successfully'' (lower t) \<Longrightarrow>
   py_in ''error'' (lower t) \<or> py_in ''failed'' (lower t) \<Longrightarrow>
   tool_result_line t = ''   Error: '' @ take 100 t @ ''...''"
  by (simp add: tool_result_line_def)



section \<open>C6: a return code that is not zero\<close>

text \<open>
  When every line of the output is displayed without an exception, a return code \<open>n\<close>
  other than zero gives a failure whose message is the captured standard error, or
  \<^verbatim>\<open>Command failed with return code n\<close> when there is none.
\<close>

lemma nonzero_exit_clean_stream:
  assumes "lower (approval env) = ''y''"
    and "popen env = Inr p"
    and "exit_status p = Some n"
    and "n \<noteq> 0"
    and "list_all (\<lambda>l. snd (handle_line lib l) = None) (reads p)"
  shows "returned (execute_prompt lib ag env prompt)
     = Some \<lparr>content = [], success = False,
             error_message = Some (if stderr_text p \<noteq> [] then stderr_text p
                                   else ''Command failed with return code '' @ str_int n)\<rparr>"
proof -
  let ?tr = "[Print ''\<newline>WARNING: This will execute Claude with --dangerously-skip-permissions'',
                Print ''This gives Claude full access to execute commands in the repository directory'',
                Input ''Do you want to continue? (y/n): '']"
  let ?tr1 = "?tr @ [Print (''Executing prompt in '' @ agent_name ag
                             @ '' headless mode. Prompt: '' @ prompt),
                      Print (''Streaming Claude'' @ [CHR 0x27] @ ''s response in real-time...''),
                      Print dashes,
                      Spawn (cmd ag prompt) (repo_dir ag)]"
  from supervise_clean[OF assms(3,5), of ag ?tr1]
  obtain tr2 where s: "supervise lib ag p ?tr1
      = Some (tr2, Inr (n, if stderr_text p \<noteq> [] then [stderr_text p] else []))" by blast
  have "execute_prompt lib ag env prompt
      = map_option (outer_handler lib ag) (try_body lib ag env prompt ?tr)"
    using assms(1) by (simp add: execute_prompt_def)
  moreover have "try_body lib ag env prompt ?tr
      = Some (reconcile ag env tr2 (n, if stderr_text p \<noteq> [] then [stderr_text p] else []))"
    using s assms(2) by (simp add: try_body_def Let_def)
  ultimately show ?thesis
    using assms(4) by (simp add: reconcile_def Let_def)
qed

text \<open>
  Claim C6 says that every execution whose subprocess exits with a code other than zero
  returns the captured standard error as the error message. On a subprocess that prints
  the line \<^verbatim>\<open>42\<close>, exits with code 1 and writes \<^verbatim>\<open>permission denied\<close> to its standard error,
  the exception of the display ends the call first: the message is that of the
  exception, not the standard error.
\<close>

theorem nonzero_exit_message_lost:
  "returned (execute_prompt (lib\<lparr>json_loads := (\<lambda>s. if s = ''42'' then Some (JInt 42) else None)\<rparr>) ag
       \<lparr>approval = ''y'',
        popen = Inr \<lparr>reads = [''42\<newline>''], exit_status = Some 1,
                     stderr_text = ''permission denied''\<rparr>,
        output_file_read = Inr [], getcwd = []\<rparr> prompt)
     = Some \<lparr>content = [], success = False,
             error_message = Some (''Failed to execute Claude command: ''
                                   @ str_exn lib (AttributeError (JInt 42) ''get''))\<rparr>
   \<and> ''Failed to execute Claude command: '' @ str_exn lib (AttributeError (JInt 42) ''get'')
       \<noteq> ''permission denied''"
  by (simp add: handle_line_def strip_42 execute_prompt_def try_body_def supervise_def
        stream_loop.simps inner_handler_def lower_y)

section \<open>C7: the summary of a shell command\<close>

text \<open>
  Claim C7: for a \<^verbatim>\<open>tool_use\<close> item that names the tool \<^verbatim>\<open>Bash\<close> and whose input has the
  command string \<open>c\<close>, the summary is the first 50 characters followed by three dots when
  \<open>c\<close> is longer than 50 characters, and \<open>c\<close> itself otherwise. The summary is printed
  after \<^verbatim>\<open>Running:\<close> on a line of its own; for the empty command no such line is printed.
\<close>

theorem bash_command_summary:
  assumes "lookup item ''type'' JNull = JStr ''tool_use''"
    and "lookup item ''name'' (JStr ''unknown'') = JStr ''Bash''"
    and "lookup item ''input'' (JDict []) = JDict inp"
    and "lookup inp ''command'' (JStr []) = JStr c"
  shows "command_summary lib (JStr c) = Inr (if 50 < length c then take 50 c @ ''...'' else c)
     \<and> (50 < length c \<longrightarrow>
          display_assistant_item lib (JDict item)
            = ([''\<newline>Using tool: Bash'', ''   Running: '' @ take 50 c @ ''...''], None))
     \<and> (c \<noteq> [] \<and> length c \<le> 50 \<longrightarrow>
          display_assistant_item lib (JDict item)
            = ([''\<newline>Using tool: Bash'', ''   Running: '' @ c], None))
     \<and> (c = [] \<longrightarrow>
          display_assistant_item lib (JDict item) = ([''\<newline>Using tool: Bash''], None))"
  using assms by (auto simp: show_bash_def seq_def)

theorem bash_command_summary_witness:
  "display_assistant_item sample_lib
     (JDict [(''type'', JStr ''tool_use''), (''name'', JStr ''Bash''),
             (''input'', JDict [(''command'',
                JStr ''grep -rn TODO src tests docs scripts | sort | uniq -c | head -20'')])])
     = ([''\<newline>Using tool: Bash'',
         ''   Running: grep -rn TODO src tests docs scripts | sort | uniq...''], None)
   \<and> display_assistant_item sample_lib
     (JDict [(''type'', JStr ''tool_use''), (''name'', JStr ''Bash''),
             (''input'', JDict [(''command'', JStr ''ls -la'')])])
     = ([''\<newline>Using tool: Bash'', ''   Running: ls -la''], None)"
  using bash_command_summary[of
      "[(''type'', JStr ''tool_use''), (''name'', JStr ''Bash''),
        (''input'', JDict [(''command'',
           JStr ''grep -rn TODO src tests docs scripts | sort | uniq -c | head -20'')])]"
      "[(''command'', JStr ''grep -rn TODO src tests docs scripts | sort | uniq -c | head -20'')]"
      "''grep -rn TODO src tests docs scripts | sort | uniq -c | head -20''" sample_lib]
    bash_command_summary[of
      "[(''type'', JStr ''tool_use''), (''name'', JStr ''Bash''),
        (''input'', JDict [(''command'', JStr ''ls -la'')])]"
      "[(''command'', JStr ''ls -la'')]" "''ls -la''" sample_lib]
  by (simp add: lookup_def)

section \<open>C8: a failure always has a message\<close>

text \<open>
  Claim C8: every response that \<^verbatim>\<open>execute_prompt\<close> returns and that is not a success has
  an error message that is not empty; and each failure path does end in such a response.
  An operator who declines gets the cancellation response. With the operator's approval,
  a program that cannot be started, a process that exits with a code other than zero, an
  output file that cannot be read after the exit code 0, and a line of output whose
  display raises each make the call return a failed response with a message that is
  not empty.
\<close>

theorem failure_has_message:
  "(returned (execute_prompt lib ag env prompt) = Some r \<and> \<not> success r
      \<longrightarrow> (\<exists>m. error_message r = Some m \<and> m \<noteq> []))
   \<and> (lower (approval env) \<noteq> ''y''
      \<longrightarrow> returned (execute_prompt lib ag env prompt)
           = Some \<lparr>content = ''Operation cancelled by user'', success = False,
                   error_message =
                     Some ''User did not approve execution with dangerous permissions''\<rparr>)
   \<and> (lower (approval env) = ''y'' \<and> popen env = Inl (OSError msg)
      \<longrightarrow> returned (execute_prompt lib ag env prompt)
           = Some \<lparr>content = [], success = False,
                   error_message = Some (''Failed to execute Claude command: ''
                                         @ str_exn lib (OSError msg))\<rparr>)
   \<and> (lower (approval env) = ''y'' \<and> popen env = Inr p \<and> exit_status p = Some n \<and> n \<noteq> 0
      \<longrightarrow> (\<exists>r' m. returned (execute_prompt lib ag env prompt) = Some r'
                  \<and> \<not> success r' \<and> error_message r' = Some m \<and> m \<noteq> []))
   \<and> (lower (approval env) = ''y'' \<and> popen env = Inr p \<and> exit_status p = Some 0
        \<and> output_file_read env = Inl (OSError msg)
      \<longrightarrow> (\<exists>r' m. returned (execute_prompt lib ag env prompt) = Some r'
                  \<and> \<not> success r' \<and> error_message r' = Some m \<and> m \<noteq> []))
   \<and> (lower (approval env) = ''y'' \<and> popen env = Inr p \<and> reads p = pre @ l # post
        \<and> list_all (\<lambda>x. snd (handle_line lib x) = None) pre
        \<and> l \<noteq> [] \<and> snd (handle_line lib l) = Some e
      \<longrightarrow> returned (execute_prompt lib ag env prompt)
           = Some \<lparr>content = [], success = False,
                   error_message = Some (''Failed to execute Claude command: ''
                                         @ str_exn lib e)\<rparr>)"
proof (intro conjI impI)
  assume a: "returned (execute_prompt lib ag env prompt) = Some r \<and> \<not> success r"
  show "\<exists>m. error_message r = Some m \<and> m \<noteq> []"
  proof (cases "lower (approval env) = ''y''")
    case True
    from a have "returned (execute_prompt lib ag env prompt) = Some r" and "\<not> success r"
      by simp_all
    from execute_prompt_result[OF True this(1)] this(2) show ?thesis
      by (auto simp: failure_text_def)
  next
    case False
    with a have "r = cancelled" by (simp add: execute_prompt_def)
    then show ?thesis by (simp add: cancelled_def)
  qed
next
  assume "lower (approval env) \<noteq> ''y''"
  then show "returned (execute_prompt lib ag env prompt)
           = Some \<lparr>content = ''Operation cancelled by user'', success = False,
                   error_message =
                     Some ''User did not approve execution with dangerous permissions''\<rparr>"
    by (simp add: execute_prompt_def cancelled_def)
next
  assume a: "lower (approval env) = ''y'' \<and> popen env = Inl (OSError msg)"
  then have "\<exists>tr'. try_body lib ag env prompt
           [Print ''\<newline>WARNING: This will execute Claude with --dangerously-skip-permissions'',
            Print ''This gives Claude full access to execute commands in the repository directory'',
            Input ''Do you want to continue? (y/n): ''] = Some (tr', Inl (OSError msg))"
    by (simp add: try_body_def Let_def)
  then obtain tr' where "try_body lib ag env prompt
           [Print ''\<newline>WARNING: This will execute Claude with --dangerously-skip-permissions'',
            Print ''This gives Claude full access to execute commands in the repository directory'',
            Input ''Do you want to continue? (y/n): ''] = Some (tr', Inl (OSError msg))" ..
  from caught_exception[OF _ this] a
  show "returned (execute_prompt lib ag env prompt)
           = Some \<lparr>content = [], success = False,
                   error_message = Some (''Failed to execute Claude command: ''
                                         @ str_exn lib (OSError msg))\<rparr>"
    by simp
next
  assume "lower (approval env) = ''y'' \<and> popen env = Inr p \<and> exit_status p = Some n \<and> n \<noteq> 0"
  then show "\<exists>r' m. returned (execute_prompt lib ag env prompt) = Some r'
                  \<and> \<not> success r' \<and> error_message r' = Some m \<and> m \<noteq> []"
    using exited_process_fails[of env p n msg lib ag prompt] by simp
next
  assume "lower (approval env) = ''y'' \<and> popen env = Inr p \<and> exit_status p = Some 0
        \<and> output_file_read env = Inl (OSError msg)"
  then show "\<exists>r' m. returned (execute_prompt lib ag env prompt) = Some r'
                  \<and> \<not> success r' \<and> error_message r' = Some m \<and> m \<noteq> []"
    using exited_process_fails[of env p 0 msg lib ag prompt] by simp
next
  assume a: "lower (approval env) = ''y'' \<and> popen env = Inr p \<and> reads p = pre @ l # post
        \<and> list_all (\<lambda>x. snd (handle_line lib x) = None) pre
        \<and> l \<noteq> [] \<and> snd (handle_line lib l) = Some e"
  let ?tr = "[Print ''\<newline>WARNING: This will execute Claude with --dangerously-skip-permissions'',
                Print ''This gives Claude full access to execute commands in the repository directory'',
                Input ''Do you want to continue? (y/n): '']"
  let ?tr1 = "?tr @ [Print (''Executing prompt in '' @ agent_name ag
                             @ '' headless mode. Prompt: '' @ prompt),
                      Print (''Streaming Claude'' @ [CHR 0x27] @ ''s response in real-time...''),
                      Print dashes,
                      Spawn (cmd ag prompt) (repo_dir ag)]"
  from a supervise_raises[of p pre l post lib e ag ?tr1]
  obtain tr2 where "supervise lib ag p ?tr1 = Some (tr2, Inl e)" by auto
  with a have tb: "try_body lib ag env prompt ?tr = Some (tr2, Inl e)"
    by (simp add: try_body_def Let_def)
  from a have "display_error e" using handle_line_error[of lib l e] by simp
  then have "e \<noteq> TimeoutExpired" "is_Exception ag e"
    using display_error_caught[of e ag] by simp_all
  with caught_exception[OF _ tb] a
  show "returned (execute_prompt lib ag env prompt)
           = Some \<lparr>content = [], success = False,
                   error_message = Some (''Failed to execute Claude command: ''
                                         @ str_exn lib e)\<rparr>"
    by simp
qed

theorem failure_has_message_witness:
  "returned (execute_prompt sample_lib sample_agent
      \<lparr>approval = ''y'', popen = Inl (OSError ''claude''),
       output_file_read = Inr [], getcwd = ''/work/simulatedev''\<rparr> ''fix the bug'')
     = Some \<lparr>content = [], success = False,
             error_message = Some ''Failed to execute Claude command: <exception>''\<rparr>
   \<and> returned (execute_prompt sample_lib sample_agent
      (approving \<lparr>reads = [''42\<newline>''], exit_status = Some 0, stderr_text = []\<rparr>
                 (Inr ''summary'')) ''fix the bug'')
     = Some \<lparr>content = [], success = False,
             error_message = Some ''Failed to execute Claude command: <exception>''\<rparr>
   \<and> returned (execute_prompt sample_lib sample_agent
      (approving \<lparr>reads = [], exit_status = Some 0, stderr_text = []\<rparr>
                 (Inl (OSError ''output.txt''))) ''fix the bug'')
     = Some \<lparr>content = [], success = False,
             error_message = Some ''Failed to execute Claude command: <exception>''\<rparr>
   \<and> returned (execute_prompt sample_lib sample_agent
      (approving \<lparr>reads = [], exit_status = Some 2, stderr_text = []\<rparr> (Inr []))
      ''fix the bug'')
     = Some \<lparr>content = [], success = False,
             error_message = Some ''Command failed with return code 2''\<rparr>
   \<and> returned (execute_prompt sample_lib sample_agent
      \<lparr>approval = ''no'', popen = Inl (OSError ''claude''),
       output_file_read = Inr [], getcwd = ''/work/simulatedev''\<rparr> ''fix the bug'')
     = Some \<lparr>content = ''Operation cancelled by user'', success = False,
             error_message = Some ''User did not approve execution with dangerous permissions''\<rparr>"
proof -
  let ?launch = "\<lparr>approval = ''y'', popen = Inl (OSError ''claude''),
       output_file_read = Inr [], getcwd = ''/work/simulatedev''\<rparr>"
  let ?p42 = "\<lparr>reads = [''42\<newline>''], exit_status = Some 0, stderr_text = []\<rparr>"
  let ?p0 = "\<lparr>reads = [], exit_status = Some 0, stderr_text = []\<rparr>"
  let ?p2 = "\<lparr>reads = [], exit_status = Some 2, stderr_text = []\<rparr>"
  let ?no = "\<lparr>approval = ''no'', popen = Inl (OSError ''claude''),
       output_file_read = Inr [], getcwd = ''/work/simulatedev''\<rparr>"
  have s42: "strip ''42\<newline>'' = ''42''" by (simp add: strip_def is_space_def)
  have h42: "snd (handle_line sample_lib ''42\<newline>'') = Some (AttributeError (JInt 42) ''get'')"
    by (simp add: handle_line_def s42 sample_lib_def)
  have a: "returned (execute_prompt sample_lib sample_agent ?launch ''fix the bug'')
     = Some \<lparr>content = [], success = False,
             error_message = Some ''Failed to execute Claude command: <exception>''\<rparr>"
    using failure_has_message[of sample_lib sample_agent ?launch "''fix the bug''" _ "''claude''"]
    by (simp add: lower_y sample_lib_def)
  have b: "returned (execute_prompt sample_lib sample_agent (approving ?p42 (Inr ''summary''))
        ''fix the bug'')
     = Some \<lparr>content = [], success = False,
             error_message = Some ''Failed to execute Claude command: <exception>''\<rparr>"
    using failure_has_message[of sample_lib sample_agent "approving ?p42 (Inr ''summary'')"
        "''fix the bug''" _ _ ?p42 _ "[]" "''42\<newline>''" "[]" "AttributeError (JInt 42) ''get''"] h42
    by (simp add: approving_def lower_y sample_lib_def)
  have c: "returned (execute_prompt sample_lib sample_agent
        (approving ?p0 (Inl (OSError ''output.txt''))) ''fix the bug'')
     = Some \<lparr>content = [], success = False,
             error_message = Some ''Failed to execute Claude command: <exception>''\<rparr>"
    using failure_has_message[of sample_lib sample_agent
        "approving ?p0 (Inl (OSError ''output.txt''))" "''fix the bug''"]
    by (simp add: approving_def execute_prompt_def try_body_def supervise_def stream_loop.simps
        popen_wait_def reconcile_def lower_y sample_lib_def)
  have d: "returned (execute_prompt sample_lib sample_agent (approving ?p2 (Inr []))
        ''fix the bug'')
     = Some \<lparr>content = [], success = False,
             error_message = Some ''Command failed with return code 2''\<rparr>"
    using failure_has_message[of sample_lib sample_agent "approving ?p2 (Inr [])"
        "''fix the bug''"]
    by (simp add: approving_def execute_prompt_def try_body_def supervise_def stream_loop.simps
        popen_wait_def reconcile_def Let_def lower_y str_int_def str_nat.simps)
  have e: "returned (execute_prompt sample_lib sample_agent ?no ''fix the bug'')
     = Some \<lparr>content = ''Operation cancelled by user'', success = False,
             error_message = Some ''User did not approve execution with dangerous permissions''\<rparr>"
    using failure_has_message[of sample_lib sample_agent ?no "''fix the bug''"]
    by (simp add: lower_def lower_char_def upper_letters_def lower_letters_def)
  from a b c d e show ?thesis by simp
qed

section \<open>C9: the confirmation gate\<close>

text \<open>
  Claim C9: the operator's answer approves exactly when its lowercased form is \<^verbatim>\<open>y\<close>, that
  is, when it is \<^verbatim>\<open>y\<close> or \<^verbatim>\<open>Y\<close>. Any other answer returns the cancellation response after
  the two warnings and the question, and nothing else happens; a call that spawns a
  subprocess has been approved.
\<close>

theorem confirmation_gate:
  "(lower (approval env) = ''y'' \<longleftrightarrow> approval env = ''y'' \<or> approval env = ''Y'')
   \<and> (lower (approval env) \<noteq> ''y'' \<longrightarrow>
        execute_prompt lib ag env prompt
          = Some ([Print ''\<newline>WARNING: This will execute Claude with --dangerously-skip-permissions'',
                   Print ''This gives Claude full access to execute commands in the repository directory'',
                   Input ''Do you want to continue? (y/n): ''],
                  Inr \<lparr>content = ''Operation cancelled by user'', success = False,
                       error_message =
                         Some ''User did not approve execution with dangerous permissions''\<rparr>))
   \<and> ((\<exists>c d. Spawn c d \<in> set (effects (execute_prompt lib ag env prompt)))
        \<longrightarrow> lower (approval env) = ''y'')"
proof (intro conjI impI)
  show "lower (approval env) = ''y'' \<longleftrightarrow> approval env = ''y'' \<or> approval env = ''Y''"
    by (rule lower_eq_y)
next
  assume "lower (approval env) \<noteq> ''y''"
  then show "execute_prompt lib ag env prompt
          = Some ([Print ''\<newline>WARNING: This will execute Claude with --dangerously-skip-permissions'',
                   Print ''This gives Claude full access to execute commands in the repository directory'',
                   Input ''Do you want to continue? (y/n): ''],
                  Inr \<lparr>content = ''Operation cancelled by user'', success = False,
                       error_message =
                         Some ''User did not approve execution with dangerous permissions''\<rparr>)"
    by (simp add: execute_prompt_def cancelled_def)
next
  assume sp: "\<exists>c d. Spawn c d \<in> set (effects (execute_prompt lib ag env prompt))"
  show "lower (approval env) = ''y''"
  proof (rule ccontr)
    assume "lower (approval env) \<noteq> ''y''"
    then have "effects (execute_prompt lib ag env prompt)
        = [Print ''\<newline>WARNING: This will execute Claude with --dangerously-skip-permissions'',
           Print ''This gives Claude full access to execute commands in the repository directory'',
           Input ''Do you want to continue? (y/n): '']"
      by (simp add: execute_prompt_def)
    with sp show False by simp
  qed
qed

theorem confirmation_gate_witness:
  "lower ''yes'' \<noteq> ''y''
   \<and> execute_prompt sample_lib sample_agent
        \<lparr>approval = ''yes'',
         popen = Inr \<lparr>reads = [], exit_status = Some 0, stderr_text = []\<rparr>,
         output_file_read = Inr ''summary'', getcwd = ''/work/simulatedev''\<rparr> ''fix the bug''
      = Some ([Print ''\<newline>WARNING: This will execute Claude with --dangerously-skip-permissions'',
               Print ''This gives Claude full access to execute commands in the repository directory'',
               Input ''Do you want to continue? (y/n): ''],
              Inr \<lparr>content = ''Operation cancelled by user'', success = False,
                   error_message =
                     Some ''User did not approve execution with dangerous permissions''\<rparr>)
   \<and> lower [] \<noteq> ''y''
   \<and> execute_prompt sample_lib sample_agent
        \<lparr>approval = [],
         popen = Inr \<lparr>reads = [], exit_status = Some 0, stderr_text = []\<rparr>,
         output_file_read = Inr ''summary'', getcwd = ''/work/simulatedev''\<rparr> ''fix the bug''
      = Some ([Print ''\<newline>WARNING: This will execute Claude with --dangerously-skip-permissions'',
               Print ''This gives Claude full access to execute commands in the repository directory'',
               Input ''Do you want to continue? (y/n): ''],
              Inr \<lparr>content = ''Operation cancelled by user'', success = False,
                   error_message =
                     Some ''User did not approve execution with dangerous permissions''\<rparr>)"
proof -
  have a: "lower ''yes'' \<noteq> ''y''" and b: "lower [] \<noteq> ''y''"
    by (simp_all add: lower_def)
  from a b
    confirmation_gate[of "\<lparr>approval = ''yes'',
         popen = Inr \<lparr>reads = [], exit_status = Some 0, stderr_text = []\<rparr>,
         output_file_read = Inr ''summary'', getcwd = ''/work/simulatedev''\<rparr>"
       sample_lib sample_agent "''fix the bug''"]
    confirmation_gate[of "\<lparr>approval = [],
         popen = Inr \<lparr>reads = [], exit_status = Some 0, stderr_text = []\<rparr>,
         output_file_read = Inr ''summary'', getcwd = ''/work/simulatedev''\<rparr>"
       sample_lib sample_agent "''fix the bug''"]
  show ?thesis by simp
qed

section \<open>C10: the project directory\<close>

text \<open>
  Claim C10: \<^verbatim>\<open>is_ide_open_with_correct_project\<close> returns true exactly when a project name
  is set (it is neither \<^verbatim>\<open>None\<close> nor empty) and the lowercased name occurs in the
  lowercased base name of the current working directory. A directory whose name merely
  contains the project name passes, and so does one that differs in the case of its
  letters, accented letters included.
\<close>

theorem project_directory_check:
  "snd (is_ide_open_with_correct_project ag env) \<longleftrightarrow>
     (\<exists>name. current_project_name ag = Some name \<and> name \<noteq> []
        \<and> (\<exists>pre post. lower (basename (getcwd env)) = pre @ lower name @ post))"
  by (cases "current_project_name ag")
     (auto simp: is_ide_open_with_correct_project_def Let_def py_in_iff)

theorem project_directory_check_witness:
  "snd (is_ide_open_with_correct_project sample_agent
          \<lparr>approval = [], popen = Inl (OSError []), output_file_read = Inl (OSError []),
           getcwd = ''/home/dev/my-simulatedev-fork''\<rparr>)
   \<and> lower (basename ''/home/dev/my-simulatedev-fork'')
       = ''my-'' @ lower ''SimulateDev'' @ ''-fork''
   \<and> \<not> snd (is_ide_open_with_correct_project (sample_agent\<lparr>current_project_name := None\<rparr>)
          \<lparr>approval = [], popen = Inl (OSError []), output_file_read = Inl (OSError []),
           getcwd = ''/home/dev/my-simulatedev-fork''\<rparr>)
   \<and> snd (is_ide_open_with_correct_project
          (sample_agent\<lparr>current_project_name := Some (''caf'' @ [CHR 0xE9])\<rparr>)
          \<lparr>approval = [], popen = Inl (OSError []), output_file_read = Inl (OSError []),
           getcwd = ''/home/dev/CAF'' @ [CHR 0xC9]\<rparr>)"
proof -
  have l: "lower (basename ''/home/dev/my-simulatedev-fork'')
       = ''my-'' @ lower ''SimulateDev'' @ ''-fork''"
    by (simp add: basename_def lower_def lower_char_def upper_letters_def lower_letters_def)
  have n: "current_project_name sample_agent = Some ''SimulateDev''"
    by (simp add: sample_agent_def)
  from l n have "\<exists>name. current_project_name sample_agent = Some name \<and> name \<noteq> []
        \<and> (\<exists>pre post. lower (basename (getcwd \<lparr>approval = [], popen = Inl (OSError []),
              output_file_read = Inl (OSError []),
              getcwd = ''/home/dev/my-simulatedev-fork''\<rparr>)) = pre @ lower name @ post)"
    by (intro exI[of _ "''SimulateDev''"] conjI exI[of _ "''my-''"] exI[of _ "''-fork''"]) simp_all
  then have "snd (is_ide_open_with_correct_project sample_agent
          \<lparr>approval = [], popen = Inl (OSError []), output_file_read = Inl (OSError []),
           getcwd = ''/home/dev/my-simulatedev-fork''\<rparr>)"
    by (simp only: project_directory_check)
  moreover have "\<not> snd (is_ide_open_with_correct_project
          (sample_agent\<lparr>current_project_name := None\<rparr>)
          \<lparr>approval = [], popen = Inl (OSError []), output_file_read = Inl (OSError []),
           getcwd = ''/home/dev/my-simulatedev-fork''\<rparr>)"
    by (simp add: project_directory_check)
  moreover have "snd (is_ide_open_with_correct_project
          (sample_agent\<lparr>current_project_name := Some (''caf'' @ [CHR 0xE9])\<rparr>)
          \<lparr>approval = [], popen = Inl (OSError []), output_file_read = Inl (OSError []),
           getcwd = ''/home/dev/CAF'' @ [CHR 0xC9]\<rparr>)"
    by (simp add: is_ide_open_with_correct_project_def basename_def lower_def lower_char_def
          upper_letters_def lower_letters_def)
  ultimately show ?thesis using l by simp
qed

end
